theory Spec2Isabelle
  imports Main "HOL-Library.Char_ord" "HOL-Library.List_Lexorder"
begin

section \<open>JavaScript values\<close>

text \<open>
  The generator of \<^verbatim>\<open>packages/@vue/cli/lib/Generator.js\<close> works on plain JavaScript
  objects: the manifest (\<^verbatim>\<open>this.pkg\<close>), the virtual file tree (\<^verbatim>\<open>this.files\<close>) and the
  injection ledgers. An object is modelled by the list of its own properties in insertion
  order, which is the order \<^verbatim>\<open>Object.keys\<close>, \<^verbatim>\<open>for ... in\<close> and \<^verbatim>\<open>JSON.stringify\<close>
  follow for property names that are not array indices. The names of the fields of the
  manifest and the paths of the tree are taken to be neither array indices nor names of
  members of \<^verbatim>\<open>Object.prototype\<close>; the lookup of a severity in
  \<^verbatim>\<open>logTypes\<close>, whose key a plugin chooses freely, follows the inherited members too.

  A number is held as the text JavaScript prints for it (\<^verbatim>\<open>String(n)\<close>, for example
  \<^verbatim>\<open>42\<close>, \<^verbatim>\<open>0.5\<close>, \<^verbatim>\<open>1e+21\<close>, \<^verbatim>\<open>NaN\<close>); zero and minus zero are both \<^verbatim>\<open>0\<close>.
  Nothing here computes with numbers.
\<close>

datatype json =
    JUndefined
  | JNull
  | JBool bool
  | JNum string
  | JStr string
  | JArr "json list"
  | JObj "(string \<times> json) list"

type_synonym obj = "(string \<times> json) list"

text \<open>JavaScript truthiness, as tested by \<^verbatim>\<open>&&\<close>, \<^verbatim>\<open>||\<close>, \<^verbatim>\<open>!\<close> and \<^verbatim>\<open>if\<close>.\<close>

fun truthy :: "json \<Rightarrow> bool" where
  "truthy JUndefined = False"
| "truthy JNull = False"
| "truthy (JBool b) = b"
| "truthy (JNum n) = (n \<noteq> ''0'' \<and> n \<noteq> ''NaN'')"
| "truthy (JStr s) = (s \<noteq> [])"
| "truthy (JArr xs) = True"
| "truthy (JObj kvs) = True"

text \<open>\<^verbatim>\<open>o[key]\<close>: the value of an own property, \<^verbatim>\<open>undefined\<close> when there is none.\<close>

definition js_get :: "obj \<Rightarrow> string \<Rightarrow> json" where
  "js_get ob key = (case map_of ob key of Some v \<Rightarrow> v | None \<Rightarrow> JUndefined)"

text \<open>\<^verbatim>\<open>o[key] = v\<close>: an existing property keeps its position, a new one goes last.\<close>

fun js_set :: "(string \<times> 'v) list \<Rightarrow> string \<Rightarrow> 'v \<Rightarrow> (string \<times> 'v) list" where
  "js_set [] key v = [(key, v)]"
| "js_set ((k, w) # kvs) key v =
     (if k = key then (k, v) # kvs else (k, w) # js_set kvs key v)"

text \<open>\<^verbatim>\<open>delete o[key]\<close>.\<close>

definition js_delete :: "(string \<times> 'v) list \<Rightarrow> string \<Rightarrow> (string \<times> 'v) list" where
  "js_delete ob key = filter (\<lambda>kv. fst kv \<noteq> key) ob"

text \<open>What a step can raise: an error of a config transform, or a \<^verbatim>\<open>TypeError\<close>.\<close>

datatype error = TransformError string | TypeError string

section \<open>Exit log queue\<close>

text \<open>
  \<^verbatim>\<open>
  const logTypes = {
    log: logger.log, info: logger.info, done: logger.done,
    warn: logger.warn, error: logger.error
  }
  \<close>
  A call of one of the logger's functions is recorded as a line: the channel, the message
  argument and the tag argument (\<open>None\<close> for an argument that is not passed).
\<close>

datatype channel = Log | Info | Done | Warn | Error

record log_line =
  line_channel :: channel
  line_msg :: "string option"
  line_tag :: "string option"

definition logTypes :: "(string \<times> channel) list" where
  "logTypes =
     [(''log'', Log), (''info'', Info), (''done'', Done), (''warn'', Warn), (''error'', Error)]"

text \<open>An entry of \<^verbatim>\<open>this.exitLogs\<close>: \<^verbatim>\<open>{ id, msg, type }\<close>.\<close>

record exit_log =
  log_id :: string
  log_msg :: string
  log_type :: string

definition apostrophe :: char where
  "apostrophe = CHR 0x27"

text \<open>The template literal \<^verbatim>\<open>`Invalid api.exitLog type '${type}'.`\<close>.\<close>

definition invalid_type_message :: "string \<Rightarrow> string" where
  "invalid_type_message ty =
     ''Invalid api.exitLog type '' @ [apostrophe] @ ty @ [apostrophe] @ ''.''"

text \<open>
  \<^verbatim>\<open>logTypes\<close> is an object literal, so \<^verbatim>\<open>logTypes[type]\<close> also finds the members it
  inherits from \<^verbatim>\<open>Object.prototype\<close>. Such a member is truthy, and line 310 calls it
  as \<^verbatim>\<open>logFn(msg, msg && shortId)\<close>, without a receiver and with a string as first
  argument: \<^verbatim>\<open>constructor\<close> (the function \<^verbatim>\<open>Object\<close>), \<^verbatim>\<open>toString\<close> and
  \<^verbatim>\<open>isPrototypeOf\<close> return and log nothing; \<^verbatim>\<open>__proto__\<close> is an object, not a
  function, and the others convert their missing receiver to an object: these raise a
  \<^verbatim>\<open>TypeError\<close>.
\<close>

definition object_prototype_members :: "string list" where
  "object_prototype_members =
     [''constructor'', ''__defineGetter__'', ''__defineSetter__'', ''hasOwnProperty'',
      ''__lookupGetter__'', ''__lookupSetter__'', ''isPrototypeOf'', ''propertyIsEnumerable'',
      ''toString'', ''valueOf'', ''__proto__'', ''toLocaleString'']"

definition silent_members :: "string list" where
  "silent_members = [''constructor'', ''isPrototypeOf'', ''toString'']"

text \<open>
  The line that lines 307 to 311 print for an entry whose severity is an own key of
  \<^verbatim>\<open>logTypes\<close> or no key at all. \<^verbatim>\<open>toShortPluginId\<close> belongs to
  \<^verbatim>\<open>@vue/cli-shared-utils\<close> and is a parameter. \<^verbatim>\<open>msg && shortId\<close> is \<^verbatim>\<open>msg\<close>
  itself when \<^verbatim>\<open>msg\<close> is the empty string.
\<close>

definition entry_line :: "(string \<Rightarrow> string) \<Rightarrow> exit_log \<Rightarrow> log_line" where
  "entry_line toShortPluginId e =
     (let shortId = toShortPluginId (log_id e) in
      case map_of logTypes (log_type e) of
        None \<Rightarrow>
          \<lparr>line_channel = Error,
           line_msg = Some (invalid_type_message (log_type e)),
           line_tag = Some shortId\<rparr>
      | Some logFn \<Rightarrow>
          \<lparr>line_channel = logFn,
           line_msg = Some (log_msg e),
           line_tag = Some (if log_msg e = [] then log_msg e else shortId)\<rparr>)"

text \<open>
  The body of the \<^verbatim>\<open>forEach\<close> in \<^verbatim>\<open>printExitLogs\<close> (lines 304 to 312): the lines it
  prints for one entry, or the error it raises.
\<close>

definition print_entry :: "(string \<Rightarrow> string) \<Rightarrow> exit_log \<Rightarrow> error + log_line list" where
  "print_entry toShortPluginId e =
     (if map_of logTypes (log_type e) = None \<and> log_type e \<in> set object_prototype_members
      then (if log_type e \<in> set silent_members then Inr []
            else Inl (TypeError (log_type e)))
      else Inr [entry_line toShortPluginId e])"

text \<open>
  The \<^verbatim>\<open>forEach\<close> over the queue: the lines printed, and the error that ended the
  loop, if one was raised.
\<close>

fun flush_entries ::
  "(string \<Rightarrow> string) \<Rightarrow> exit_log list \<Rightarrow> log_line list \<times> error option" where
  "flush_entries toShortPluginId [] = ([], None)"
| "flush_entries toShortPluginId (e # es) =
     (case print_entry toShortPluginId e of
        Inl err \<Rightarrow> ([], Some err)
      | Inr ls \<Rightarrow>
          (ls @ fst (flush_entries toShortPluginId es),
           snd (flush_entries toShortPluginId es)))"

text \<open>
  Lines 302 to 315, on the queue \<^verbatim>\<open>this.exitLogs\<close>. The closing \<^verbatim>\<open>logger.log()\<close>
  is reached only when the loop has not raised.
\<close>

definition printExitLogs ::
  "(string \<Rightarrow> string) \<Rightarrow> exit_log list \<Rightarrow> log_line list \<times> error option" where
  "printExitLogs toShortPluginId exitLogs =
     (if exitLogs \<noteq> []
      then (case snd (flush_entries toShortPluginId exitLogs) of
              None \<Rightarrow>
                (fst (flush_entries toShortPluginId exitLogs)
                 @ [\<lparr>line_channel = Log, line_msg = None, line_tag = None\<rparr>], None)
            | Some err \<Rightarrow> (fst (flush_entries toShortPluginId exitLogs), Some err))
      else ([], None))"

text \<open>Whether a printed line shows a given text, in its message or in its tag.\<close>

fun includes_str :: "string \<Rightarrow> string \<Rightarrow> bool" where
  "includes_str [] p = (p = [])"
| "includes_str (c # cs) p = (take (length p) (c # cs) = p \<or> includes_str cs p)"

definition surfaces_text :: "string \<Rightarrow> log_line \<Rightarrow> bool" where
  "surfaces_text t l =
     ((case line_msg l of None \<Rightarrow> False | Some m \<Rightarrow> includes_str m t) \<or>
      (case line_tag l of None \<Rightarrow> False | Some g \<Rightarrow> includes_str g t))"

text \<open>
  Modelled from the spec: \<^verbatim>\<open>toShortPluginId\<close> of \<^verbatim>\<open>@vue/cli-shared-utils\<close>, whose
  source is not part of this slice. The spec says that an id "may be matched by short
  form (scope/prefix stripped)"; the prefixes are those of the plugin naming convention,
  \<^verbatim>\<open>@vue/cli-plugin-\<close>, \<^verbatim>\<open>vue-cli-plugin-\<close> and \<^verbatim>\<open>@scope/vue-cli-plugin-\<close>.
  It is used for concrete runs only; the general results take the function as a parameter.
\<close>

definition starts_with :: "string \<Rightarrow> string \<Rightarrow> bool" where
  "starts_with s p = (take (length p) s = p)"

definition strip_scope :: "string \<Rightarrow> string" where
  "strip_scope s =
     (if starts_with s ''@'' \<and> CHR ''/'' \<in> set s
      then tl (dropWhile (\<lambda>c. c \<noteq> CHR ''/'') s) else s)"

definition short_plugin_id :: "string \<Rightarrow> string" where
  "short_plugin_id i =
     (if starts_with i ''@vue/cli-plugin-'' then drop (length ''@vue/cli-plugin-'') i
      else if starts_with (strip_scope i) ''vue-cli-plugin-''
      then drop (length ''vue-cli-plugin-'') (strip_scope i)
      else i)"

section \<open>Plugins and the generator's state\<close>

text \<open>
  The virtual file tree maps a path to its content. A callback registered for after the
  invocation is only stored by the generator, so it is represented by its name; file
  middlewares and post-process callbacks are run by \<^verbatim>\<open>resolveFiles\<close> and are functions
  on the tree.
\<close>

type_synonym tree = "(string \<times> string) list"
type_synonym cb = string
type_synonym ledger = "(string \<times> string list) list"

text \<open>
  A config transform (\<^verbatim>\<open>ConfigTransform.js\<close>, not part of this slice) is used through its
  method \<^verbatim>\<open>transform(value, checkExisting, files, context)\<close>, which returns
  \<^verbatim>\<open>{ content, filename }\<close> or raises. It is modelled by that function; the pair is
  (content, filename).
\<close>

type_synonym transform = "json \<Rightarrow> bool \<Rightarrow> tree \<Rightarrow> error + string \<times> string"

text \<open>
  Modelled from the spec: the registration methods of \<^verbatim>\<open>GeneratorAPI.js\<close>, which is not
  part of this slice. A plugin's \<^verbatim>\<open>apply\<close> and \<^verbatim>\<open>hooks\<close> functions act on the
  generator through the API handle they are given; the run of such a function is modelled
  by the list of the API calls it makes. Each registration appends to the generator's
  list of that kind (sections 3, 4.1 and 9 of the spec); an injection request joins the
  per-path ordered set of the ledger, duplicates suppressed at insertion (section 9).
\<close>

datatype api_call =
    AfterInvoke cb
  | AfterAnyInvoke cb
  | PostProcessFiles "tree \<Rightarrow> tree"
  | Render "tree \<Rightarrow> tree"
  | ExtendPackage "obj \<Rightarrow> obj"
  | InjectImports string "string list"
  | InjectRootOptions string "string list"
  | AddConfigTransform string transform
  | ExitLog string string

record plugin =
  plugin_id :: string
  plugin_apply :: "json \<Rightarrow> json \<Rightarrow> bool \<Rightarrow> api_call list"
  plugin_options :: json
  plugin_hooks :: "(json \<Rightarrow> json \<Rightarrow> string list \<Rightarrow> api_call list) option"

text \<open>The module \<^verbatim>\<open>${id}/generator\<close> as \<^verbatim>\<open>loadModule\<close> returns it: its \<^verbatim>\<open>hooks\<close> export, if any.\<close>

record generator_module =
  module_hooks :: "(json \<Rightarrow> json \<Rightarrow> string list \<Rightarrow> api_call list) option"

text \<open>
  What the generator calls in plugin code, in call order. This is not a field of the
  class: it records the arguments of every call of an \<^verbatim>\<open>apply\<close> or \<^verbatim>\<open>hooks\<close>
  function (the API handle left out, it is bound to the same id, options and root options).
\<close>

datatype plugin_call =
    HooksCalled string json json "string list"
  | ApplyCalled string json json bool

text \<open>
  What \<^verbatim>\<open>resolveFiles\<close> calls, in call order; again not a field of the class. A file
  middleware or post-process callback is named by its position in its list, a call of the
  injection engine by its concern, the path and the entries it is given.
\<close>

datatype concern = ImportsConcern | OptionsConcern

datatype resolve_call =
    MiddlewareCalled nat
  | NormalizeCalled
  | EngineCalled concern string "string list"
  | PostProcessCalled nat

record generator =
  plugins :: "plugin list"
  originalPkg :: obj
  pkg :: obj
  importsLedger :: ledger
  rootOptionsLedger :: ledger
  afterInvokeCbs :: "cb list"
  afterAnyInvokeCbs :: "cb list"
  configTransforms :: "(string \<times> transform) list"
  invoking :: bool
  files :: tree
  fileMiddlewares :: "(tree \<Rightarrow> tree) list"
  postProcessFilesCbs :: "(tree \<Rightarrow> tree) list"
  exitLogs :: "exit_log list"
  allPlugins :: "string list"
  plugin_calls :: "plugin_call list"
  resolve_calls :: "resolve_call list"

text \<open>
  Modelled from the spec: what each call of the API does to the generator
  (\<^verbatim>\<open>GeneratorAPI.js\<close> is not part of this slice). A registration appends to the list of
  its kind; an injection request joins the ordered set of its path; an exit log is
  queued with the id of the plugin that holds the handle.
\<close>

definition ledger_add :: "ledger \<Rightarrow> string \<Rightarrow> string list \<Rightarrow> ledger" where
  "ledger_add l path entries =
     js_set l path
       (fold (\<lambda>e acc. if e \<in> set acc then acc else acc @ [e]) entries
          (case map_of l path of None \<Rightarrow> [] | Some es \<Rightarrow> es))"

fun api_step :: "string \<Rightarrow> api_call \<Rightarrow> generator \<Rightarrow> generator" where
  "api_step i (AfterInvoke c) g = g\<lparr>afterInvokeCbs := afterInvokeCbs g @ [c]\<rparr>"
| "api_step i (AfterAnyInvoke c) g = g\<lparr>afterAnyInvokeCbs := afterAnyInvokeCbs g @ [c]\<rparr>"
| "api_step i (PostProcessFiles c) g =
     g\<lparr>postProcessFilesCbs := postProcessFilesCbs g @ [c]\<rparr>"
| "api_step i (Render m) g = g\<lparr>fileMiddlewares := fileMiddlewares g @ [m]\<rparr>"
| "api_step i (ExtendPackage f) g = g\<lparr>pkg := f (pkg g)\<rparr>"
| "api_step i (InjectImports path es) g =
     g\<lparr>importsLedger := ledger_add (importsLedger g) path es\<rparr>"
| "api_step i (InjectRootOptions path es) g =
     g\<lparr>rootOptionsLedger := ledger_add (rootOptionsLedger g) path es\<rparr>"
| "api_step i (AddConfigTransform key t) g =
     g\<lparr>configTransforms := js_set (configTransforms g) key t\<rparr>"
| "api_step i (ExitLog m ty) g =
     g\<lparr>exitLogs := exitLogs g @ [\<lparr>log_id = i, log_msg = m, log_type = ty\<rparr>]\<rparr>"

definition run_calls :: "string \<Rightarrow> api_call list \<Rightarrow> generator \<Rightarrow> generator" where
  "run_calls i calls g = fold (api_step i) calls g"

section \<open>The constructor: discovery pass and apply pass\<close>

text \<open>Decimal digits of an array index, for \<^verbatim>\<open>Object.keys\<close> of an array or a string.\<close>

fun show_nat :: "nat \<Rightarrow> string" where
  "show_nat n =
     (if n < 10 then [char_of (n + 48)]
      else show_nat (n div 10) @ [char_of (n mod 10 + 48)])"

declare show_nat.simps [simp del]

text \<open>
  \<^verbatim>\<open>Object.keys(v)\<close> for a truthy \<^verbatim>\<open>v\<close>: the own property names of an object, the
  indices of an array or of a string, nothing for a number or a boolean.
\<close>

fun object_keys :: "json \<Rightarrow> string list" where
  "object_keys (JObj kvs) = map fst kvs"
| "object_keys (JArr xs) = map show_nat [0..<length xs]"
| "object_keys (JStr s) = map show_nat [0..<length s]"
| "object_keys v = []"

text \<open>\<^verbatim>\<open>Object.keys(this.pkg[field] || {})\<close>.\<close>

definition keys_or_empty :: "obj \<Rightarrow> string \<Rightarrow> string list" where
  "keys_or_empty p field =
     (if truthy (js_get p field) then object_keys (js_get p field) else [])"

text \<open>
  The parameters of the constructor, \<^verbatim>\<open>context\<close> apart (it is only handed on), with the
  defaults of the destructuring pattern written out by the caller.
\<close>

record generator_args =
  arg_pkg :: obj
  arg_plugins :: "plugin list"
  arg_afterInvokeCbs :: "cb list"
  arg_afterAnyInvokeCbs :: "cb list"
  arg_files :: tree
  arg_invoking :: bool

text \<open>Lines 79 to 106: the fields as assigned before the first plugin code runs.\<close>

definition init_generator :: "(string \<Rightarrow> bool) \<Rightarrow> generator_args \<Rightarrow> generator" where
  "init_generator isPlugin a =
     \<lparr>plugins = arg_plugins a,
      originalPkg = arg_pkg a,
      pkg = arg_pkg a,
      importsLedger = [],
      rootOptionsLedger = [],
      afterInvokeCbs = [],
      afterAnyInvokeCbs = arg_afterAnyInvokeCbs a,
      configTransforms = [],
      invoking = arg_invoking a,
      files = arg_files a,
      fileMiddlewares = [],
      postProcessFilesCbs = [],
      exitLogs = [],
      allPlugins =
        filter isPlugin
          (keys_or_empty (arg_pkg a) ''dependencies''
           @ keys_or_empty (arg_pkg a) ''devDependencies''),
      plugin_calls = [],
      resolve_calls = []\<rparr>"

text \<open>
  Lines 108 to 111. \<^verbatim>\<open>inferRootOptions\<close> is a helper outside this slice and a parameter.
\<close>

definition root_options :: "(obj \<Rightarrow> json) \<Rightarrow> generator_args \<Rightarrow> json" where
  "root_options inferRootOptions a =
     (case List.find (\<lambda>p. plugin_id p = ''@vue/cli-service'') (arg_plugins a) of
        Some cliService \<Rightarrow> plugin_options cliService
      | None \<Rightarrow> inferRootOptions (arg_pkg a))"

text \<open>Lines 114 to 121, the body of \<^verbatim>\<open>this.allPlugins.forEach\<close>.\<close>

definition discover_one ::
  "(string \<Rightarrow> generator_module option) \<Rightarrow> json \<Rightarrow> string list \<Rightarrow> string \<Rightarrow>
   generator \<Rightarrow> generator" where
  "discover_one loadModule rootOptions pluginIds i g =
     (case loadModule (i @ ''/generator'') of
        None \<Rightarrow> g
      | Some pluginGenerator \<Rightarrow>
          (case module_hooks pluginGenerator of
             None \<Rightarrow> g
           | Some hooks \<Rightarrow>
               run_calls i (hooks (JObj []) rootOptions pluginIds)
                 (g\<lparr>plugin_calls :=
                      plugin_calls g @ [HooksCalled i (JObj []) rootOptions pluginIds]\<rparr>)))"

text \<open>Lines 133 to 140, the body of \<^verbatim>\<open>plugins.forEach\<close>.\<close>

definition apply_one :: "json \<Rightarrow> string list \<Rightarrow> bool \<Rightarrow> plugin \<Rightarrow> generator \<Rightarrow> generator" where
  "apply_one rootOptions pluginIds invk p g =
     (let g1 = run_calls (plugin_id p) (plugin_apply p (plugin_options p) rootOptions invk)
                 (g\<lparr>plugin_calls := plugin_calls g
                      @ [ApplyCalled (plugin_id p) (plugin_options p) rootOptions invk]\<rparr>)
      in case plugin_hooks p of
           None \<Rightarrow> g1
         | Some hooks \<Rightarrow>
             run_calls (plugin_id p) (hooks (plugin_options p) rootOptions pluginIds)
               (g1\<lparr>plugin_calls := plugin_calls g1
                     @ [HooksCalled (plugin_id p) (plugin_options p) rootOptions pluginIds]\<rparr>))"

text \<open>The state after line 121: every installed plugin has had its hooks collected.\<close>

definition discovery_pass ::
  "(string \<Rightarrow> bool) \<Rightarrow> (string \<Rightarrow> generator_module option) \<Rightarrow> (obj \<Rightarrow> json) \<Rightarrow>
   generator_args \<Rightarrow> generator" where
  "discovery_pass isPlugin loadModule inferRootOptions a =
     (let g0 = init_generator isPlugin a;
          pluginIds = map plugin_id (arg_plugins a);
          rootOptions = root_options inferRootOptions a
      in fold (discover_one loadModule rootOptions pluginIds) (allPlugins g0) g0)"

text \<open>The state after line 140: hooks reset, every plugin of the invocation list applied.\<close>

definition apply_pass ::
  "(string \<Rightarrow> bool) \<Rightarrow> (string \<Rightarrow> generator_module option) \<Rightarrow> (obj \<Rightarrow> json) \<Rightarrow>
   generator_args \<Rightarrow> generator" where
  "apply_pass isPlugin loadModule inferRootOptions a =
     (let g1 = discovery_pass isPlugin loadModule inferRootOptions a;
          pluginIds = map plugin_id (arg_plugins a);
          rootOptions = root_options inferRootOptions a;
          g2 = g1\<lparr>afterInvokeCbs := arg_afterInvokeCbs a,
                  afterAnyInvokeCbs := [],
                  postProcessFilesCbs := []\<rparr>
      in fold (apply_one rootOptions pluginIds (arg_invoking a)) (arg_plugins a) g2)"

text \<open>
  The whole constructor. Line 125 saves the list the discovery pass filled, line 143
  assigns it back.
\<close>

definition Generator ::
  "(string \<Rightarrow> bool) \<Rightarrow> (string \<Rightarrow> generator_module option) \<Rightarrow> (obj \<Rightarrow> json) \<Rightarrow>
   generator_args \<Rightarrow> generator" where
  "Generator isPlugin loadModule inferRootOptions a =
     (let afterAnyInvokeCbsFromPlugins =
            afterAnyInvokeCbs (discovery_pass isPlugin loadModule inferRootOptions a);
          g3 = apply_pass isPlugin loadModule inferRootOptions a
      in g3\<lparr>afterAnyInvokeCbs := afterAnyInvokeCbsFromPlugins\<rparr>)"

text \<open>The after-any-invoke callbacks a run of plugin code registers, in order.\<close>

fun any_cbs :: "api_call list \<Rightarrow> cb list" where
  "any_cbs [] = []"
| "any_cbs (AfterAnyInvoke c # cs) = c # any_cbs cs"
| "any_cbs (x # cs) = any_cbs cs"

text \<open>The callbacks an installed plugin's \<^verbatim>\<open>hooks\<close> export registers when called as in line 119.\<close>

definition discovered_cbs ::
  "(string \<Rightarrow> generator_module option) \<Rightarrow> json \<Rightarrow> string list \<Rightarrow> string \<Rightarrow> cb list" where
  "discovered_cbs loadModule rootOptions pluginIds i =
     (case loadModule (i @ ''/generator'') of
        None \<Rightarrow> []
      | Some pluginGenerator \<Rightarrow>
          (case module_hooks pluginGenerator of
             None \<Rightarrow> []
           | Some hooks \<Rightarrow> any_cbs (hooks (JObj []) rootOptions pluginIds)))"

text \<open>The callbacks a plugin of the invocation list registers in the apply pass.\<close>

definition applied_cbs :: "json \<Rightarrow> string list \<Rightarrow> bool \<Rightarrow> plugin \<Rightarrow> cb list" where
  "applied_cbs rootOptions pluginIds invk p =
     any_cbs (plugin_apply p (plugin_options p) rootOptions invk)
     @ (case plugin_hooks p of
          None \<Rightarrow> []
        | Some hooks \<Rightarrow> any_cbs (hooks (plugin_options p) rootOptions pluginIds))"

text \<open>
  Modelled from the spec: \<^verbatim>\<open>isPlugin\<close> of \<^verbatim>\<open>@vue/cli-shared-utils\<close>, not part of this
  slice: an id is a plugin's when it carries one of the prefixes of the naming convention.
  It is used for concrete runs only; the general results take the function as a parameter.
\<close>

definition is_plugin_id :: "string \<Rightarrow> bool" where
  "is_plugin_id i =
     (starts_with i ''@vue/cli-plugin-'' \<or> starts_with (strip_scope i) ''vue-cli-plugin-'')"

text \<open>Sample plugins and modules for concrete runs.\<close>

definition lint_hooks :: "json \<Rightarrow> json \<Rightarrow> string list \<Rightarrow> api_call list" where
  "lint_hooks options rootOptions pluginIds = [AfterAnyInvoke ''lint'']"

definition no_calls :: "json \<Rightarrow> json \<Rightarrow> bool \<Rightarrow> api_call list" where
  "no_calls options rootOptions invk = []"

definition format_apply :: "json \<Rightarrow> json \<Rightarrow> bool \<Rightarrow> api_call list" where
  "format_apply options rootOptions invk = [AfterAnyInvoke ''format'']"

definition eslint_module :: "string \<Rightarrow> generator_module option" where
  "eslint_module path =
     (if path = ''@vue/cli-plugin-eslint/generator''
      then Some \<lparr>module_hooks = Some lint_hooks\<rparr> else None)"

definition no_module :: "string \<Rightarrow> generator_module option" where
  "no_module path = None"

definition no_root_options :: "obj \<Rightarrow> json" where
  "no_root_options p = JObj []"

definition eslint_pkg :: obj where
  "eslint_pkg =
     [(''name'', JStr ''app''),
      (''devDependencies'', JObj [(''@vue/cli-plugin-eslint'', JStr ''^4.0.0'')])]"

text \<open>The call of an installed plugin's \<^verbatim>\<open>hooks\<close> export that line 119 makes, if it makes one.\<close>

definition discovery_call ::
  "(string \<Rightarrow> generator_module option) \<Rightarrow> json \<Rightarrow> string list \<Rightarrow> string \<Rightarrow>
   plugin_call list" where
  "discovery_call loadModule rootOptions pluginIds i =
     (case loadModule (i @ ''/generator'') of
        None \<Rightarrow> []
      | Some pluginGenerator \<Rightarrow>
          (case module_hooks pluginGenerator of
             None \<Rightarrow> []
           | Some hooks \<Rightarrow> [HooksCalled i (JObj []) rootOptions pluginIds]))"

definition babel_plugin :: plugin where
  "babel_plugin =
     \<lparr>plugin_id = ''@vue/cli-plugin-babel'', plugin_apply = format_apply,
      plugin_options = JObj [], plugin_hooks = None\<rparr>"

text \<open>
  A run that invokes \<^verbatim>\<open>@vue/cli-plugin-babel\<close> in a project whose manifest lists
  \<^verbatim>\<open>@vue/cli-plugin-eslint\<close> as its only plugin.
\<close>

definition sample_args :: generator_args where
  "sample_args =
     \<lparr>arg_pkg = eslint_pkg, arg_plugins = [babel_plugin], arg_afterInvokeCbs = [],
      arg_afterAnyInvokeCbs = [], arg_files = [], arg_invoking = False\<rparr>"

section \<open>Config extraction\<close>

definition newline :: char where
  "newline = CHR 0x0A"

text \<open>
  \<^verbatim>\<open>
  const ensureEOL = str => {
    if (str.charAt(str.length - 1) !== '\n') { return str + '\n' }
    return str
  }
  \<close>
\<close>

definition ensureEOL :: "string \<Rightarrow> string" where
  "ensureEOL str = (if str \<noteq> [] \<and> last str = newline then str else str @ [newline])"

text \<open>\<^verbatim>\<open>Object.assign(target, source)\<close>: every own property of the source is assigned.\<close>

definition object_assign ::
  "(string \<times> 'v) list \<Rightarrow> (string \<times> 'v) list \<Rightarrow> (string \<times> 'v) list" where
  "object_assign target source = fold (\<lambda>kv t. js_set t (fst kv) (snd kv)) source target"

text \<open>
  The built-in transforms (lines 23 to 61). The class \<^verbatim>\<open>ConfigTransform\<close> is a parameter:
  \<open>mk\<close> takes the \<^verbatim>\<open>file\<close> option (candidate file names by format) to the
  transform's method.
\<close>

type_synonym file_option = "(string \<times> string list) list"

definition defaultConfigTransforms ::
  "(file_option \<Rightarrow> transform) \<Rightarrow> (string \<times> transform) list" where
  "defaultConfigTransforms mk =
     [(''babel'', mk [(''js'', [''babel.config.js''])]),
      (''postcss'', mk [(''js'', [''postcss.config.js'']),
                       (''json'', [''.postcssrc.json'', ''.postcssrc'']),
                       (''yaml'', [''.postcssrc.yaml'', ''.postcssrc.yml''])]),
      (''eslintConfig'', mk [(''js'', [''.eslintrc.js'']),
                            (''json'', [''.eslintrc'', ''.eslintrc.json'']),
                            (''yaml'', [''.eslintrc.yaml'', ''.eslintrc.yml''])]),
      (''jest'', mk [(''js'', [''jest.config.js''])]),
      (''browserslist'', mk [(''lines'', [''.browserslistrc''])])]"

definition reservedConfigTransforms ::
  "(file_option \<Rightarrow> transform) \<Rightarrow> (string \<times> transform) list" where
  "reservedConfigTransforms mk = [(''vue'', mk [(''js'', [''vue.config.js''])])]"

text \<open>Lines 164 to 168.\<close>

definition merged_transforms ::
  "(file_option \<Rightarrow> transform) \<Rightarrow> generator \<Rightarrow> (string \<times> transform) list" where
  "merged_transforms mk s =
     object_assign
       (object_assign (object_assign [] (defaultConfigTransforms mk)) (configTransforms s))
       (reservedConfigTransforms mk)"

text \<open>The guard of lines 170 to 175.\<close>

definition extractable ::
  "(string \<times> transform) list \<Rightarrow> generator \<Rightarrow> string \<Rightarrow> bool" where
  "extractable cts s key =
     (map_of cts key \<noteq> None \<and> truthy (js_get (pkg s) key)
      \<and> \<not> truthy (js_get (originalPkg s) key))"

text \<open>
  Lines 176 to 186: the field's value goes through the transform into the tree. Without
  the guard, a key with no transform would make \<^verbatim>\<open>configTransform.transform\<close> a call on
  \<^verbatim>\<open>undefined\<close>.
\<close>

definition move_field ::
  "(string \<times> transform) list \<Rightarrow> bool \<Rightarrow> string \<Rightarrow> generator \<Rightarrow> error + generator" where
  "move_field cts checkExisting key s =
     (case map_of cts key of
        None \<Rightarrow> Inl (TypeError ''configTransform is undefined'')
      | Some configTransform \<Rightarrow>
          (case configTransform (js_get (pkg s) key) checkExisting (files s) of
             Inl e \<Rightarrow> Inl e
           | Inr res \<Rightarrow>
               Inr (s\<lparr>files := js_set (files s) (snd res) (ensureEOL (fst res)),
                      pkg := js_delete (pkg s) key\<rparr>)))"

text \<open>The closure \<^verbatim>\<open>extract\<close> of lines 169 to 188 (\<open>extract\<close> is a reserved word here).\<close>

definition extract_key ::
  "(string \<times> transform) list \<Rightarrow> bool \<Rightarrow> string \<Rightarrow> generator \<Rightarrow> error + generator" where
  "extract_key cts checkExisting key s =
     (if extractable cts s key then move_field cts checkExisting key s else Inr s)"

text \<open>A loop over keys that stops at the first error, as a raised exception does.\<close>

fun each_key ::
  "(string \<Rightarrow> generator \<Rightarrow> error + generator) \<Rightarrow> string list \<Rightarrow> generator \<Rightarrow>
   error + generator" where
  "each_key f [] s = Inr s"
| "each_key f (k # ks) s = (case f k s of Inl e \<Rightarrow> Inl e | Inr s' \<Rightarrow> each_key f ks s')"

text \<open>
  \<^verbatim>\<open>!process.env.VUE_CLI_TEST\<close>: an environment variable is a string when it is
  defined; the test flag counts as set when it is defined and not empty.
\<close>

definition env_set :: "string option \<Rightarrow> bool" where
  "env_set v = (case v of None \<Rightarrow> False | Some s \<Rightarrow> s \<noteq> [])"

text \<open>
  Lines 163 to 203. The \<^verbatim>\<open>for ... in\<close> loop visits the keys the manifest has when
  the loop starts; \<^verbatim>\<open>extract\<close> deletes no key but the one it is called with.
\<close>

definition extractConfigFiles ::
  "(file_option \<Rightarrow> transform) \<Rightarrow> string option \<Rightarrow> bool \<Rightarrow> bool \<Rightarrow> generator \<Rightarrow>
   error + generator" where
  "extractConfigFiles mk VUE_CLI_TEST extractAll checkExisting s =
     (let cts = merged_transforms mk s in
      if extractAll then each_key (extract_key cts checkExisting) (map fst (pkg s)) s
      else if \<not> env_set VUE_CLI_TEST
      then (case extract_key cts checkExisting ''vue'' s of
              Inl e \<Rightarrow> Inl e
            | Inr s' \<Rightarrow> extract_key cts checkExisting ''babel'' s')
      else extract_key cts checkExisting ''babel'' s)"

text \<open>The keys \<^verbatim>\<open>extractConfigFiles\<close> calls \<^verbatim>\<open>extract\<close> with, in order.\<close>

definition extract_targets :: "string option \<Rightarrow> bool \<Rightarrow> generator \<Rightarrow> string list" where
  "extract_targets VUE_CLI_TEST extractAll s =
     (if extractAll then map fst (pkg s)
      else if env_set VUE_CLI_TEST then [''babel''] else [''vue'', ''babel''])"

text \<open>
  A stand-in for the class \<^verbatim>\<open>ConfigTransform\<close> in concrete runs: it writes a fixed
  script to the first candidate file name.
\<close>

definition first_candidate :: "file_option \<Rightarrow> string" where
  "first_candidate fo = (case fo of (fmt, f # fs) # rest \<Rightarrow> f | _ \<Rightarrow> ''config.js'')"

definition sample_transform :: "file_option \<Rightarrow> transform" where
  "sample_transform fo v checkExisting fs = Inr (''module.exports = {}'', first_candidate fo)"

definition babel_value :: json where
  "babel_value = JObj [(''presets'', JArr [JStr ''@vue/cli-plugin-babel/preset''])]"

definition jest_value :: json where
  "jest_value = JObj [(''preset'', JStr ''@vue/cli-plugin-unit-jest'')]"

definition vue_value :: json where
  "vue_value = JObj [(''lintOnSave'', JBool False)]"

text \<open>A generator over a given original manifest whose plugins have left a given manifest.\<close>

definition generator_with :: "obj \<Rightarrow> obj \<Rightarrow> generator" where
  "generator_with original current =
     (init_generator is_plugin_id
        \<lparr>arg_pkg = original, arg_plugins = [], arg_afterInvokeCbs = [],
         arg_afterAnyInvokeCbs = [], arg_files = [], arg_invoking = False\<rparr>)
     \<lparr>pkg := current\<rparr>"

text \<open>
  The original \<^verbatim>\<open>package.json\<close> is \<^verbatim>\<open>{ "name": "app", "babel": null }\<close>, and a plugin
  has set the \<^verbatim>\<open>babel\<close> field.
\<close>

definition null_babel_generator :: generator where
  "null_babel_generator =
     generator_with [(''name'', JStr ''app''), (''babel'', JNull)]
       [(''name'', JStr ''app''), (''babel'', babel_value)]"

text \<open>
  The original \<^verbatim>\<open>package.json\<close> is \<^verbatim>\<open>{ "name": "app", "jest": false }\<close>, and a plugin
  has set the \<^verbatim>\<open>jest\<close> field.
\<close>

definition false_jest_generator :: generator where
  "false_jest_generator =
     generator_with [(''name'', JStr ''app''), (''jest'', JBool False)]
       [(''name'', JStr ''app''), (''jest'', jest_value)]"

text \<open>
  The original manifest has a name and a \<^verbatim>\<open>jest\<close> field; plugins have added the fields
  \<^verbatim>\<open>babel\<close>, \<^verbatim>\<open>vue\<close> and \<^verbatim>\<open>license\<close>.
\<close>

definition fresh_fields_generator :: generator where
  "fresh_fields_generator =
     generator_with [(''name'', JStr ''app''), (''jest'', jest_value)]
       [(''name'', JStr ''app''), (''jest'', jest_value), (''babel'', babel_value),
        (''vue'', vue_value), (''license'', JStr ''MIT'')]"

section \<open>Plugin and version registry\<close>

text \<open>
  \<^verbatim>\<open>!_version\<close>: the range argument is \<^verbatim>\<open>undefined\<close> when the caller leaves it out, and
  counts as given when it is a non-empty string.
\<close>

definition version_given :: "string option \<Rightarrow> bool" where
  "version_given v = (case v of None \<Rightarrow> False | Some r \<Rightarrow> r \<noteq> [])"

text \<open>
  \<^verbatim>\<open>semver.satisfies(version, range)\<close> is a library function: it returns false for a
  version that is \<^verbatim>\<open>undefined\<close>, and otherwise decides the range, which is the
  parameter \<open>sat\<close>.
\<close>

definition semver_satisfies ::
  "(string \<Rightarrow> string \<Rightarrow> bool) \<Rightarrow> string option \<Rightarrow> string \<Rightarrow> bool" where
  "semver_satisfies sat version rng =
     (case version of None \<Rightarrow> False | Some v \<Rightarrow> sat v rng)"

text \<open>
  Lines 284 to 300. \<^verbatim>\<open>matchesPluginId\<close> (of \<^verbatim>\<open>@vue/cli-shared-utils\<close>) and
  \<^verbatim>\<open>this.pm.getInstalledVersion\<close> (the package-manager facade, \<open>None\<close> when no version
  is resolved) are parameters.
\<close>

definition hasPlugin ::
  "(string \<Rightarrow> string \<Rightarrow> bool) \<Rightarrow> (string \<Rightarrow> string option) \<Rightarrow> (string \<Rightarrow> string \<Rightarrow> bool) \<Rightarrow>
   generator \<Rightarrow> string \<Rightarrow> string option \<Rightarrow> bool" where
  "hasPlugin matchesPluginId getInstalledVersion sat g qid qversion =
     list_ex
       (\<lambda>i. if \<not> matchesPluginId qid i then False
            else if \<not> version_given qversion then True
            else (case qversion of
                    None \<Rightarrow> True
                  | Some rng \<Rightarrow> semver_satisfies sat (getInstalledVersion i) rng))
       (map plugin_id (plugins g) @ allPlugins g)"

text \<open>
  Modelled from the spec: \<^verbatim>\<open>matchesPluginId\<close> of \<^verbatim>\<open>@vue/cli-shared-utils\<close>, not part of
  this slice: an id matches a full plugin id "by exact or short/scoped-form equivalence".
  It is used for concrete runs only.
\<close>

definition matches_plugin_id :: "string \<Rightarrow> string \<Rightarrow> bool" where
  "matches_plugin_id input full =
     (full = input \<or> short_plugin_id full = input
      \<or> short_plugin_id full = strip_scope input)"

text \<open>
  Stand-ins for concrete runs: a registry in which \<^verbatim>\<open>@vue/cli-plugin-eslint\<close> is
  installed at 1.9.0 and \<^verbatim>\<open>@vue/cli-plugin-babel\<close> has no resolvable version, and a
  range check that knows caret ranges by their major version only.
\<close>

definition sample_versions :: "string \<Rightarrow> string option" where
  "sample_versions i = (if i = ''@vue/cli-plugin-eslint'' then Some ''1.9.0'' else None)"

definition same_major :: "string \<Rightarrow> string \<Rightarrow> bool" where
  "same_major v rng =
     (starts_with rng ''^''
      \<and> takeWhile (\<lambda>c. c \<noteq> CHR ''.'') v = takeWhile (\<lambda>c. c \<noteq> CHR ''.'') (tl rng))"

section \<open>Sorting and serializing the manifest\<close>

text \<open>
  Modelled from the spec: \<^verbatim>\<open>sortObject\<close> of \<^verbatim>\<open>util/sortObject.js\<close>, which is not part
  of this slice. Section 4.4, step 4, gives its two uses: without a key order the keys
  are sorted ("sorted alphabetically by package name"); with a key order the keys of "a
  fixed priority prefix" come first. For the keys that remain the helper is followed as
  \<^verbatim>\<open>sortPkg\<close> calls it, with one or two arguments: they are sorted too (by character
  code, as \<^verbatim>\<open>Array.prototype.sort\<close> orders strings), where the spec says "in original
  order", which the helper does only when a third argument asks for it. The helper returns
  \<^verbatim>\<open>undefined\<close> for a falsy argument, and it assigns every key of the key order, with
  the value \<^verbatim>\<open>undefined\<close> for a key the object does not have. The own properties of
  an array or a string are its indices, which an object lists before its other keys; a
  number or a boolean has none.

  The helper also deletes the listed keys from its argument. The argument is dropped
  after each call of lines 207 to 240; a \<^verbatim>\<open>scripts\<close> object that the manifest shares
  with the original manifest loses its listed keys there, which nothing below reads.
\<close>

definition listed_entries :: "obj \<Rightarrow> string list option \<Rightarrow> obj" where
  "listed_entries ob keyOrder =
     (case keyOrder of None \<Rightarrow> [] | Some order \<Rightarrow> map (\<lambda>k. (k, js_get ob k)) order)"

definition unlisted_entries :: "obj \<Rightarrow> string list option \<Rightarrow> obj" where
  "unlisted_entries ob keyOrder =
     (case keyOrder of None \<Rightarrow> ob | Some order \<Rightarrow> filter (\<lambda>kv. fst kv \<notin> set order) ob)"

definition sort_keys :: "obj \<Rightarrow> string list option \<Rightarrow> obj" where
  "sort_keys ob keyOrder =
     listed_entries ob keyOrder @ sort_key fst (unlisted_entries ob keyOrder)"

definition index_entries :: "json list \<Rightarrow> obj" where
  "index_entries xs = zip (map show_nat [0..<length xs]) xs"

fun sortObject :: "json \<Rightarrow> string list option \<Rightarrow> json" where
  "sortObject (JObj kvs) keyOrder = JObj (sort_keys kvs keyOrder)"
| "sortObject (JArr xs) keyOrder = JObj (index_entries xs @ listed_entries [] keyOrder)"
| "sortObject (JStr s) keyOrder =
     (if s = [] then JUndefined
      else JObj (index_entries (map (\<lambda>c. JStr [c]) s) @ listed_entries [] keyOrder))"
| "sortObject (JNum n) keyOrder =
     (if truthy (JNum n) then JObj (listed_entries [] keyOrder) else JUndefined)"
| "sortObject (JBool b) keyOrder = (if b then JObj (listed_entries [] keyOrder) else JUndefined)"
| "sortObject JNull keyOrder = JUndefined"
| "sortObject JUndefined keyOrder = JUndefined"

definition script_order :: "string list" where
  "script_order = [''serve'', ''build'', ''test'', ''e2e'', ''lint'', ''deploy'']"

definition pkg_order :: "string list" where
  "pkg_order =
     [''name'', ''version'', ''private'', ''description'', ''author'', ''scripts'', ''main'',
      ''module'', ''browser'', ''jsDelivr'', ''unpkg'', ''files'', ''dependencies'',
      ''devDependencies'', ''peerDependencies'', ''vue'', ''babel'', ''eslintConfig'',
      ''prettier'', ''postcss'', ''browserslist'', ''jest'']"

text \<open>
  Lines 205 to 243 on the manifest. Each of the first three assignments creates the
  property when it is missing, with the value \<^verbatim>\<open>undefined\<close> that \<^verbatim>\<open>sortObject\<close>
  returns for it. The last call is on \<^verbatim>\<open>this.pkg\<close>, which is an object.
\<close>

definition sort_manifest :: "obj \<Rightarrow> obj" where
  "sort_manifest p =
     (let p1 = js_set p ''dependencies'' (sortObject (js_get p ''dependencies'') None);
          p2 = js_set p1 ''devDependencies'' (sortObject (js_get p1 ''devDependencies'') None);
          p3 = js_set p2 ''scripts'' (sortObject (js_get p2 ''scripts'') (Some script_order))
      in sort_keys p3 (Some pkg_order))"

definition sortPkg :: "generator \<Rightarrow> generator" where
  "sortPkg g = g\<lparr>pkg := sort_manifest (pkg g)\<rparr>"

text \<open>
  \<^verbatim>\<open>JSON.stringify(value, null, 2)\<close> on the values of the model. A number is printed
  as JavaScript prints it, \<^verbatim>\<open>null\<close> when it is not finite. A property whose value is \<^verbatim>\<open>undefined\<close> is left out, an \<^verbatim>\<open>undefined\<close> array
  element is printed as \<^verbatim>\<open>null\<close>; an empty object or array is printed without a line
  break.
\<close>

definition dquote :: char where
  "dquote = CHR 0x22"

definition backslash :: char where
  "backslash = CHR 0x5C"

definition hex_digit :: "nat \<Rightarrow> char" where
  "hex_digit n = (if n < 10 then char_of (n + 48) else char_of (n + 87))"

definition escape_char :: "char \<Rightarrow> string" where
  "escape_char c =
     (if c = dquote then [backslash, dquote]
      else if c = backslash then [backslash, backslash]
      else if c = CHR 0x08 then [backslash, CHR ''b'']
      else if c = CHR 0x0C then [backslash, CHR ''f'']
      else if c = CHR 0x0A then [backslash, CHR ''n'']
      else if c = CHR 0x0D then [backslash, CHR ''r'']
      else if c = CHR 0x09 then [backslash, CHR ''t'']
      else if (of_char c :: nat) < 32
      then [backslash, CHR ''u'', CHR ''0'', CHR ''0'',
            hex_digit ((of_char c :: nat) div 16), hex_digit ((of_char c :: nat) mod 16)]
      else [c])"

definition quote :: "string \<Rightarrow> string" where
  "quote s = dquote # concat (map escape_char s) @ [dquote]"

fun join :: "string \<Rightarrow> string list \<Rightarrow> string" where
  "join sep [] = []"
| "join sep [x] = x"
| "join sep (x # y # ys) = x @ sep @ join sep (y # ys)"

definition indent :: "nat \<Rightarrow> string" where
  "indent n = replicate n CHR '' ''"

definition block :: "char \<Rightarrow> char \<Rightarrow> nat \<Rightarrow> string list \<Rightarrow> string" where
  "block opening closing ind parts =
     (if parts = [] then [opening, closing]
      else [opening, newline]
           @ join [CHR '','', newline] (map (\<lambda>p. indent (ind + 2) @ p) parts)
           @ [newline] @ indent ind @ [closing])"

fun stringify :: "nat \<Rightarrow> json \<Rightarrow> string"
  and stringify_items :: "nat \<Rightarrow> json list \<Rightarrow> string list"
  and stringify_props :: "nat \<Rightarrow> (string \<times> json) list \<Rightarrow> string list" where
  "stringify ind JUndefined = ''null''"
| "stringify ind JNull = ''null''"
| "stringify ind (JBool b) = (if b then ''true'' else ''false'')"
| "stringify ind (JNum n) =
     (if n = ''NaN'' \<or> n = ''Infinity'' \<or> n = ''-Infinity'' then ''null'' else n)"
| "stringify ind (JStr s) = quote s"
| "stringify ind (JArr xs) = block CHR ''['' CHR '']'' ind (stringify_items (ind + 2) xs)"
| "stringify ind (JObj kvs) = block CHR ''{'' CHR ''}'' ind (stringify_props (ind + 2) kvs)"
| "stringify_items ind [] = []"
| "stringify_items ind (x # xs) = stringify ind x # stringify_items ind xs"
| "stringify_props ind [] = []"
| "stringify_props ind ((k, v) # kvs) =
     (if v = JUndefined then stringify_props ind kvs
      else (quote k @ '': '' @ stringify ind v) # stringify_props ind kvs)"

text \<open>\<^verbatim>\<open>JSON.stringify(this.pkg, null, 2) + '\n'\<close>, as line 158 computes it.\<close>

definition serialize_manifest :: "obj \<Rightarrow> string" where
  "serialize_manifest p = stringify 0 (JObj p) @ [newline]"

text \<open>
  Two objects hold the same entries when they have the same key/value pairs, whatever the
  order of insertion. Two manifests hold the same contents when they have the same
  fields and, field by field, the same value; for \<^verbatim>\<open>dependencies\<close>,
  \<^verbatim>\<open>devDependencies\<close> and \<^verbatim>\<open>scripts\<close> two objects with the same entries count as the
  same value.
\<close>

definition same_entries :: "obj \<Rightarrow> obj \<Rightarrow> bool" where
  "same_entries a b = (distinct (map fst a) \<and> distinct (map fst b) \<and> set a = set b)"

definition sorted_fields :: "string list" where
  "sorted_fields = [''dependencies'', ''devDependencies'', ''scripts'']"

fun same_field :: "string \<Rightarrow> json \<Rightarrow> json \<Rightarrow> bool" where
  "same_field k (JObj a) (JObj b) =
     (JObj a = JObj b \<or> (k \<in> set sorted_fields \<and> same_entries a b))"
| "same_field k v w = (v = w)"

definition same_contents :: "obj \<Rightarrow> obj \<Rightarrow> bool" where
  "same_contents m1 m2 =
     (distinct (map fst m1) \<and> distinct (map fst m2) \<and> set (map fst m1) = set (map fst m2)
      \<and> list_all (\<lambda>k. same_field k (js_get m1 k) (js_get m2 k)) (map fst m1))"

text \<open>
  Two manifests whose only difference is the order of the two keys inside the
  \<^verbatim>\<open>babel\<close> field.
\<close>

definition babel_p :: obj where
  "babel_p = [(''presets'', JArr [JStr ''@vue/app'']), (''plugins'', JArr [])]"

definition babel_q :: obj where
  "babel_q = [(''plugins'', JArr []), (''presets'', JArr [JStr ''@vue/app''])]"

definition manifest_p :: obj where
  "manifest_p = [(''name'', JStr ''app''), (''babel'', JObj babel_p)]"

definition manifest_q :: obj where
  "manifest_q = [(''name'', JStr ''app''), (''babel'', JObj babel_q)]"

text \<open>
  Two manifests with the same contents: the fields, the dependencies and the scripts are
  inserted in different orders.
\<close>

definition manifest_a :: obj where
  "manifest_a =
     [(''name'', JStr ''app''),
      (''license'', JStr ''MIT''),
      (''homepage'', JStr ''x.org''),
      (''scripts'', JObj [(''lint'', JStr ''vue-cli-service lint''),
                         (''zip'', JStr ''zip -r dist''),
                         (''serve'', JStr ''vue-cli-service serve''),
                         (''clean'', JStr ''rm -rf dist'')]),
      (''dependencies'', JObj [(''vue'', JStr ''^2.6.0''), (''core-js'', JStr ''^3.0.0'')])]"

definition manifest_b :: obj where
  "manifest_b =
     [(''dependencies'', JObj [(''core-js'', JStr ''^3.0.0''), (''vue'', JStr ''^2.6.0'')]),
      (''homepage'', JStr ''x.org''),
      (''scripts'', JObj [(''clean'', JStr ''rm -rf dist''),
                         (''serve'', JStr ''vue-cli-service serve''),
                         (''zip'', JStr ''zip -r dist''),
                         (''lint'', JStr ''vue-cli-service lint'')]),
      (''license'', JStr ''MIT''),
      (''name'', JStr ''app'')]"

section \<open>File resolution\<close>

text \<open>
  Modelled from the spec: \<^verbatim>\<open>normalizeFilePaths\<close> of \<^verbatim>\<open>util/normalizeFilePaths.js\<close>,
  which is not part of this slice. Section 4.3, stage 2: "Normalize every path key in the
  tree to a canonical forward-slash form"; section 8: of an entry under a backslash path
  and one under the forward-slash path of the same location, "exactly one entry survives".
  Each key that has a backslash is entered again under its forward-slash form, over an
  entry that may be there, and deleted.
\<close>

definition slash :: "string \<Rightarrow> string" where
  "slash path = map (\<lambda>c. if c = backslash then CHR ''/'' else c) path"

definition normalize_path :: "string \<Rightarrow> tree \<Rightarrow> tree" where
  "normalize_path file t =
     (let normalized = slash file in
      if file \<noteq> normalized
      then (case map_of t file of
              None \<Rightarrow> t
            | Some content \<Rightarrow> js_delete (js_set t normalized content) file)
      else t)"

definition normalizeFilePaths :: "tree \<Rightarrow> tree" where
  "normalizeFilePaths t = fold normalize_path (map fst t) t"

text \<open>
  The injection engine is \<^verbatim>\<open>runCodemod\<close> with one of the two codemods, a parameter:
  it takes the concern, the path, the source and the entries to the new content.
\<close>

type_synonym engine = "concern \<Rightarrow> string \<Rightarrow> string \<Rightarrow> string list \<Rightarrow> string"

text \<open>
  \<^verbatim>\<open>this.imports[file]\<close> and \<^verbatim>\<open>this.rootOptions[file]\<close>, as a list (line 258 turns a
  set into the array of its members in insertion order). The tests
  \<^verbatim>\<open>imports && imports.length > 0\<close> hold when the list is not empty.
\<close>

definition ledger_entries :: "ledger \<Rightarrow> string \<Rightarrow> string list" where
  "ledger_entries l file = (case map_of l file of None \<Rightarrow> [] | Some es \<Rightarrow> es)"

text \<open>\<^verbatim>\<open>files[file] = f(files[file])\<close> for a key of the tree.\<close>

definition update_entry :: "string \<Rightarrow> (string \<Rightarrow> string) \<Rightarrow> tree \<Rightarrow> tree" where
  "update_entry file f t = map (\<lambda>pc. if fst pc = file then (fst pc, f (snd pc)) else pc) t"

text \<open>One call of \<^verbatim>\<open>runCodemod\<close> for a file, if the ledger of the concern has entries for it.\<close>

definition inject_concern :: "engine \<Rightarrow> concern \<Rightarrow> ledger \<Rightarrow> string \<Rightarrow> generator \<Rightarrow> generator" where
  "inject_concern eng cn l file g =
     (if ledger_entries l file \<noteq> []
      then g\<lparr>files := update_entry file (\<lambda>source. eng cn file source (ledger_entries l file))
                         (files g),
             resolve_calls := resolve_calls g @ [EngineCalled cn file (ledger_entries l file)]\<rparr>
      else g)"

text \<open>Lines 256 to 276, the body of \<^verbatim>\<open>Object.keys(files).forEach\<close>.\<close>

definition inject_file :: "engine \<Rightarrow> string \<Rightarrow> generator \<Rightarrow> generator" where
  "inject_file eng file g =
     (let g1 = inject_concern eng ImportsConcern (importsLedger g) file g
      in inject_concern eng OptionsConcern (rootOptionsLedger g1) file g1)"

definition run_middleware :: "nat \<times> (tree \<Rightarrow> tree) \<Rightarrow> generator \<Rightarrow> generator" where
  "run_middleware im g =
     g\<lparr>files := snd im (files g), resolve_calls := resolve_calls g @ [MiddlewareCalled (fst im)]\<rparr>"

definition run_post_process :: "nat \<times> (tree \<Rightarrow> tree) \<Rightarrow> generator \<Rightarrow> generator" where
  "run_post_process ip g =
     g\<lparr>files := snd ip (files g), resolve_calls := resolve_calls g @ [PostProcessCalled (fst ip)]\<rparr>"

text \<open>
  Lines 245 to 282. Every \<^verbatim>\<open>await\<close> is followed by the next statement only: the
  function is sequential.
\<close>

definition resolveFiles :: "engine \<Rightarrow> generator \<Rightarrow> generator" where
  "resolveFiles eng g =
     (let g1 = fold run_middleware (enumerate 0 (fileMiddlewares g)) g;
          g2 = g1\<lparr>files := normalizeFilePaths (files g1),
                  resolve_calls := resolve_calls g1 @ [NormalizeCalled]\<rparr>;
          g3 = fold (inject_file eng) (map fst (files g2)) g2
      in fold run_post_process (enumerate 0 (postProcessFilesCbs g3)) g3)"




section \<open>The generation pipeline\<close>

text \<open>
  Lines 146 to 161. The writer is outside this slice; the result holds the final state
  and the pair (final tree, initial tree) that is handed to \<^verbatim>\<open>writeFileTree\<close>. An
  error raised by the extraction ends the run before the writer is called.
\<close>

definition generate ::
  "(file_option \<Rightarrow> transform) \<Rightarrow> string option \<Rightarrow> engine \<Rightarrow> bool \<Rightarrow> bool \<Rightarrow> generator \<Rightarrow>
   error + generator \<times> tree \<times> tree" where
  "generate mk VUE_CLI_TEST eng extractAll checkExisting g =
     (let initialFiles = files g in
      case extractConfigFiles mk VUE_CLI_TEST extractAll checkExisting g of
        Inl e \<Rightarrow> Inl e
      | Inr g1 \<Rightarrow>
          (let g2 = resolveFiles eng g1;
               g3 = sortPkg g2;
               g4 = g3\<lparr>files := js_set (files g3) ''package.json''
                                  (serialize_manifest (pkg g3))\<rparr>
           in Inr (g4, files g4, initialFiles)))"

text \<open>
  A sample plugin for concrete runs. Its \<^verbatim>\<open>apply\<close> renders \<^verbatim>\<open>src\main.js\<close> (under a
  backslash path, as on Windows), asks for an import and a root option in
  \<^verbatim>\<open>src/main.js\<close>, registers a post-process callback that overwrites \<^verbatim>\<open>package.json\<close>,
  and adds a \<^verbatim>\<open>babel\<close> field and a \<^verbatim>\<open>license\<close> field to the manifest.
\<close>

definition sample_engine :: engine where
  "sample_engine cn file source entries =
     (case cn of
        ImportsConcern \<Rightarrow> join [newline] entries @ [newline] @ source
      | OptionsConcern \<Rightarrow> source @ ''// options: '' @ join '', '' entries)"

definition render_main :: "tree \<Rightarrow> tree" where
  "render_main t = js_set t (''src'' @ [backslash] @ ''main.js'') ''new Vue()''"

definition clobber_manifest :: "tree \<Rightarrow> tree" where
  "clobber_manifest t = js_set t ''package.json'' ''{}''"

definition add_fields :: "obj \<Rightarrow> obj" where
  "add_fields p = js_set (js_set p ''babel'' babel_value) ''license'' (JStr ''MIT'')"

definition router_apply :: "json \<Rightarrow> json \<Rightarrow> bool \<Rightarrow> api_call list" where
  "router_apply options rootOptions invk =
     [Render render_main,
      InjectImports ''src/main.js'' [''import router from ./router''],
      InjectRootOptions ''src/main.js'' [''router''],
      PostProcessFiles clobber_manifest,
      ExtendPackage add_fields]"

definition router_plugin :: plugin where
  "router_plugin =
     \<lparr>plugin_id = ''@vue/cli-plugin-router'', plugin_apply = router_apply,
      plugin_options = JObj [], plugin_hooks = None\<rparr>"

definition router_args :: generator_args where
  "router_args =
     \<lparr>arg_pkg = [(''version'', JStr ''0.1.0''), (''name'', JStr ''app'')],
      arg_plugins = [router_plugin], arg_afterInvokeCbs = [], arg_afterAnyInvokeCbs = [],
      arg_files = [(''README.md'', ''# app'')], arg_invoking = False\<rparr>"


text \<open>Lines of text, each ended by a line feed, to write a file's content down.\<close>

definition unlines :: "string list \<Rightarrow> string" where
  "unlines ls = concat (map (\<lambda>l. l @ [CHR 0x0A]) ls)"

text \<open>
  Further stand-ins for the class \<^verbatim>\<open>ConfigTransform\<close> in concrete runs. The first
  writes the value as an assigned module value, or line by line for the line-list format,
  to the first candidate file name, or, when it is asked to check, to the first candidate
  that the tree already holds. The second raises.
\<close>

definition candidates :: "file_option \<Rightarrow> string list" where
  "candidates fo = concat (map snd fo)"

definition target_file :: "file_option \<Rightarrow> bool \<Rightarrow> tree \<Rightarrow> string" where
  "target_file fo checkExisting fs =
     (if checkExisting
      then (case List.find (\<lambda>f. map_of fs f \<noteq> None) (candidates fo) of
              Some f \<Rightarrow> f
            | None \<Rightarrow> first_candidate fo)
      else first_candidate fo)"

fun line_texts :: "json list \<Rightarrow> string list" where
  "line_texts [] = []"
| "line_texts (JStr s # vs) = s # line_texts vs"
| "line_texts (v # vs) = line_texts vs"

definition script_transform :: "file_option \<Rightarrow> transform" where
  "script_transform fo v checkExisting fs =
     (case (map fst fo, v) of
        ([''lines''], JArr xs) \<Rightarrow> Inr (unlines (line_texts xs), target_file fo checkExisting fs)
      | _ \<Rightarrow> Inr (''module.exports = '' @ stringify 0 v, target_file fo checkExisting fs))"

definition failing_transform :: "file_option \<Rightarrow> transform" where
  "failing_transform fo v checkExisting fs = Inl (TransformError ''cannot write'')"

text \<open>
  The original manifest has a name and a \<^verbatim>\<open>babel\<close> field, and no plugin has changed
  the manifest.
\<close>

definition original_babel_generator :: generator where
  "original_babel_generator =
     generator_with [(''name'', JStr ''app''), (''babel'', babel_value)]
       [(''name'', JStr ''app''), (''babel'', babel_value)]"

text \<open>
  The original manifest has a name and a \<^verbatim>\<open>jest\<close> field; plugins have added five
  fields, and the tree holds a lint configuration in JSON format.
\<close>

definition config_generator :: generator where
  "config_generator =
     (generator_with [(''name'', JStr ''app''), (''jest'', jest_value)]
        [(''name'', JStr ''app''), (''jest'', jest_value), (''babel'', babel_value),
         (''eslintConfig'', JObj [(''root'', JBool True)]), (''vue'', vue_value),
         (''license'', JStr ''MIT''),
         (''browserslist'', JArr [JStr ''> 1%'', JStr ''last 2 versions''])])
     \<lparr>files := [(''.eslintrc.json'', ''{}'')]\<rparr>"

text \<open>
  A run of the sample plugin on a manifest with nested objects, an array, a number, a
  boolean, \<^verbatim>\<open>null\<close> and a string that holds double quotes.
\<close>

definition scaffold_args :: generator_args where
  \<open>scaffold_args =
     router_args
       \<lparr>arg_pkg :=
          [(''version'', JStr ''0.1.0''),
           (''private'', JBool True),
           (''name'', JStr ''app''),
           (''scripts'', JObj [(''test'', JStr ''jest --config "jest.config.js"''),
                              (''build'', JStr ''vue-cli-service build'')]),
           (''devDependencies'', JObj [(''vue-template-compiler'', JStr ''^2.6.0''),
                                      (''@vue/cli-service'', JStr ''^4.0.0'')]),
           (''engines'', JObj [(''node'', JStr ''>=8'')]),
           (''files'', JArr [JStr ''dist'', JNum ''12'', JNull]),
           (''config'', JObj [])]\<rparr>\<close>

definition scaffold_generator :: generator where
  "scaffold_generator = Generator is_plugin_id no_module no_root_options scaffold_args"

text \<open>
  The manifest of that run after the extraction of \<^verbatim>\<open>babel\<close>, and the files the run
  is expected to hand to the writer.
\<close>

definition extracted_pkg :: obj where
  \<open>extracted_pkg =
     [(''version'', JStr ''0.1.0''),
      (''private'', JBool True),
      (''name'', JStr ''app''),
      (''scripts'', JObj [(''test'', JStr ''jest --config "jest.config.js"''),
                         (''build'', JStr ''vue-cli-service build'')]),
      (''devDependencies'', JObj [(''vue-template-compiler'', JStr ''^2.6.0''),
                                 (''@vue/cli-service'', JStr ''^4.0.0'')]),
      (''engines'', JObj [(''node'', JStr ''>=8'')]),
      (''files'', JArr [JStr ''dist'', JNum ''12'', JNull]),
      (''config'', JObj []),
      (''license'', JStr ''MIT'')]\<close>

definition babel_config_js :: string where
  \<open>babel_config_js =
     unlines
       [''module.exports = {'',
        ''  "presets": ['',
        ''    "@vue/cli-plugin-babel/preset"'',
        ''  ]'',
        ''}'']\<close>

definition scaffold_package_json :: string where
  \<open>scaffold_package_json =
     unlines
       [''{'',
        ''  "name": "app",'',
        ''  "version": "0.1.0",'',
        ''  "private": true,'',
        ''  "scripts": {'',
        ''    "build": "vue-cli-service build",'',
        ''    "test": "jest --config '' @ [CHR 0x5C, CHR 0x22] @ ''jest.config.js''
          @ [CHR 0x5C, CHR 0x22] @ ''"'',
        ''  },'',
        ''  "files": ['',
        ''    "dist",'',
        ''    12,'',
        ''    null'',
        ''  ],'',
        ''  "devDependencies": {'',
        ''    "@vue/cli-service": "^4.0.0",'',
        ''    "vue-template-compiler": "^2.6.0"'',
        ''  },'',
        ''  "config": {},'',
        ''  "engines": {'',
        ''    "node": ">=8"'',
        ''  },'',
        ''  "license": "MIT"'',
        ''}'']\<close>

section \<open>Results on the exit log queue\<close>

lemma print_entry_not_inherited:
  "log_type e \<notin> set object_prototype_members \<Longrightarrow> print_entry f e = Inr [entry_line f e]"
  by (simp add: print_entry_def)

lemma flush_entries_not_inherited:
  "\<forall>e \<in> set queue. log_type e \<notin> set object_prototype_members \<Longrightarrow>
   flush_entries f queue = (map (entry_line f) queue, None)"
  by (induction queue) (simp_all add: print_entry_not_inherited)

lemma map_of_logTypes_None:
  "ty \<notin> {''log'', ''info'', ''done'', ''warn'', ''error''} \<Longrightarrow> map_of logTypes ty = None"
  by (simp add: logTypes_def)

text \<open>
  C4, as stated, fails. An entry queued by \<^verbatim>\<open>@vue/cli-plugin-foo\<close> with the message
  \<^verbatim>\<open>disk full\<close> and the unrecognised severity \<^verbatim>\<open>fatal\<close> is flushed as one line on the
  error channel, tagged \<^verbatim>\<open>foo\<close>, that names the severity; no printed line shows the
  queued message. With the severity \<^verbatim>\<open>constructor\<close> or \<^verbatim>\<open>toString\<close>, which
  \<^verbatim>\<open>logTypes\<close> inherits, nothing is printed for the entry at all; with \<^verbatim>\<open>__proto__\<close>
  or \<^verbatim>\<open>valueOf\<close> the flush raises a \<^verbatim>\<open>TypeError\<close>.
\<close>

theorem printExitLogs_message_dropped:
  "printExitLogs short_plugin_id
     [\<lparr>log_id = ''@vue/cli-plugin-foo'', log_msg = ''disk full'', log_type = ''fatal''\<rparr>]
   = ([\<lparr>line_channel = Error,
        line_msg = Some (invalid_type_message ''fatal''),
        line_tag = Some ''foo''\<rparr>,
       \<lparr>line_channel = Log, line_msg = None, line_tag = None\<rparr>], None)
   \<and> \<not> list_ex (surfaces_text ''disk full'')
        (fst (printExitLogs short_plugin_id
          [\<lparr>log_id = ''@vue/cli-plugin-foo'', log_msg = ''disk full'',
            log_type = ''fatal''\<rparr>]))
   \<and> printExitLogs short_plugin_id
       [\<lparr>log_id = ''@vue/cli-plugin-foo'', log_msg = ''disk full'',
         log_type = ''constructor''\<rparr>]
     = ([\<lparr>line_channel = Log, line_msg = None, line_tag = None\<rparr>], None)
   \<and> printExitLogs short_plugin_id
       [\<lparr>log_id = ''@vue/cli-plugin-foo'', log_msg = ''disk full'',
         log_type = ''toString''\<rparr>]
     = ([\<lparr>line_channel = Log, line_msg = None, line_tag = None\<rparr>], None)
   \<and> printExitLogs short_plugin_id
       [\<lparr>log_id = ''@vue/cli-plugin-foo'', log_msg = ''disk full'',
         log_type = ''__proto__''\<rparr>]
     = ([], Some (TypeError ''__proto__''))
   \<and> printExitLogs short_plugin_id
       [\<lparr>log_id = ''@vue/cli-plugin-foo'', log_msg = ''disk full'',
         log_type = ''valueOf''\<rparr>]
     = ([], Some (TypeError ''valueOf''))"
  by (simp add: printExitLogs_def print_entry_def entry_line_def logTypes_def
      short_plugin_id_def starts_with_def surfaces_text_def invalid_type_message_def
      apostrophe_def object_prototype_members_def silent_members_def)

text \<open>
  C4, amended. When no entry of the queue has a severity that names a member inherited
  from \<^verbatim>\<open>Object.prototype\<close>, flushing a non-empty queue raises nothing and prints one
  line per entry, in queue order, followed by one empty line on the log channel. The line
  of an entry whose severity is not one of log, info, done, warn, error goes to the error
  channel, reads \<^verbatim>\<open>Invalid api.exitLog type '<severity>'.\<close> and is tagged with the short
  id of the plugin that queued it; the entry's own message is not part of it.
\<close>

theorem printExitLogs_unrecognized_type:
  assumes "\<forall>e \<in> set queue. log_type e \<notin> set object_prototype_members"
    and "i < length queue"
    and "log_type (queue ! i) \<notin> {''log'', ''info'', ''done'', ''warn'', ''error''}"
  shows "snd (printExitLogs toShortPluginId queue) = None
    \<and> length (fst (printExitLogs toShortPluginId queue)) = Suc (length queue)
    \<and> fst (printExitLogs toShortPluginId queue) ! i =
        \<lparr>line_channel = Error,
         line_msg = Some (invalid_type_message (log_type (queue ! i))),
         line_tag = Some (toShortPluginId (log_id (queue ! i)))\<rparr>"
proof -
  from assms(2) have ne: "queue \<noteq> []" by auto
  have p: "printExitLogs toShortPluginId queue
      = (map (entry_line toShortPluginId) queue
         @ [\<lparr>line_channel = Log, line_msg = None, line_tag = None\<rparr>], None)"
    using ne flush_entries_not_inherited [OF assms(1), of toShortPluginId]
    by (simp add: printExitLogs_def)
  have "entry_line toShortPluginId (queue ! i) =
        \<lparr>line_channel = Error,
         line_msg = Some (invalid_type_message (log_type (queue ! i))),
         line_tag = Some (toShortPluginId (log_id (queue ! i)))\<rparr>"
    using map_of_logTypes_None [OF assms(3)] by (simp add: entry_line_def)
  with assms(2) show ?thesis by (simp add: p nth_append)
qed

theorem printExitLogs_unrecognized_type_witness:
  "printExitLogs short_plugin_id
     [\<lparr>log_id = ''vue-cli-plugin-bar'', log_msg = ''ok'', log_type = ''done''\<rparr>,
      \<lparr>log_id = ''@vue/cli-plugin-foo'', log_msg = ''disk full'', log_type = ''fatal''\<rparr>]
   = ([\<lparr>line_channel = Done, line_msg = Some ''ok'', line_tag = Some ''bar''\<rparr>,
       \<lparr>line_channel = Error,
        line_msg = Some (''Invalid api.exitLog type '' @ [CHR 0x27] @ ''fatal'' @ [CHR 0x27]
                         @ ''.''),
        line_tag = Some ''foo''\<rparr>,
       \<lparr>line_channel = Log, line_msg = None, line_tag = None\<rparr>], None)"
  using printExitLogs_unrecognized_type [of
     "[\<lparr>log_id = ''vue-cli-plugin-bar'', log_msg = ''ok'', log_type = ''done''\<rparr>,
       \<lparr>log_id = ''@vue/cli-plugin-foo'', log_msg = ''disk full'', log_type = ''fatal''\<rparr>]"
     1 short_plugin_id]
  by (simp add: printExitLogs_def print_entry_def entry_line_def logTypes_def
      short_plugin_id_def starts_with_def strip_scope_def invalid_type_message_def
      apostrophe_def object_prototype_members_def)

section \<open>Results on the constructor\<close>

lemma api_step_any: "afterAnyInvokeCbs (api_step i c g) = afterAnyInvokeCbs g @ any_cbs [c]"
  by (cases c) simp_all

lemma any_cbs_append: "any_cbs (xs @ ys) = any_cbs xs @ any_cbs ys"
  by (induction xs rule: any_cbs.induct) simp_all

lemma any_cbs_Cons: "any_cbs (c # cs) = any_cbs [c] @ any_cbs cs"
  using any_cbs_append [of "[c]" cs] by simp

lemma run_calls_any:
  "afterAnyInvokeCbs (run_calls i calls g) = afterAnyInvokeCbs g @ any_cbs calls"
  unfolding run_calls_def
proof (induction calls arbitrary: g)
  case Nil
  show ?case by simp
next
  case (Cons c cs)
  show ?case using any_cbs_Cons [of c cs] by (simp add: Cons.IH api_step_any)
qed

lemma api_step_calls: "plugin_calls (api_step i c g) = plugin_calls g"
  by (cases c) simp_all

lemma run_calls_calls: "plugin_calls (run_calls i calls g) = plugin_calls g"
  unfolding run_calls_def
  by (induction calls arbitrary: g) (simp_all add: api_step_calls)

lemma discover_one_any:
  "afterAnyInvokeCbs (discover_one L r ps i g) = afterAnyInvokeCbs g @ discovered_cbs L r ps i"
  by (simp add: discover_one_def discovered_cbs_def run_calls_any split: option.splits)

lemma discover_one_calls:
  "plugin_calls (discover_one L r ps i g) = plugin_calls g @ discovery_call L r ps i"
  by (simp add: discover_one_def discovery_call_def run_calls_calls split: option.splits)

lemma fold_discover_any:
  "afterAnyInvokeCbs (fold (discover_one L r ps) ids g)
   = afterAnyInvokeCbs g @ concat (map (discovered_cbs L r ps) ids)"
  by (induction ids arbitrary: g) (simp_all add: discover_one_any)

lemma fold_discover_calls:
  "plugin_calls (fold (discover_one L r ps) ids g)
   = plugin_calls g @ concat (map (discovery_call L r ps) ids)"
  by (induction ids arbitrary: g) (simp_all add: discover_one_calls)

lemma apply_one_any:
  "afterAnyInvokeCbs (apply_one r ps v p g) = afterAnyInvokeCbs g @ applied_cbs r ps v p"
  by (simp add: apply_one_def applied_cbs_def run_calls_any Let_def split: option.splits)

lemma fold_apply_any:
  "afterAnyInvokeCbs (fold (apply_one r ps v) pl g)
   = afterAnyInvokeCbs g @ concat (map (applied_cbs r ps v) pl)"
  by (induction pl arbitrary: g) (simp_all add: apply_one_any)

text \<open>
  When line 143 is reached, \<^verbatim>\<open>this.afterAnyInvokeCbs\<close> holds exactly what the plugins
  of the invocation list registered in the apply pass, in order.
\<close>

lemma apply_pass_any:
  "afterAnyInvokeCbs (apply_pass isPlugin loadModule inferRootOptions a)
   = concat (map (applied_cbs (root_options inferRootOptions a) (map plugin_id (arg_plugins a))
        (arg_invoking a)) (arg_plugins a))"
  by (simp add: apply_pass_def Let_def fold_apply_any)

text \<open>
  C1, as stated, fails. In the sample run the invoked plugin registers the
  after-any-invoke callback \<^verbatim>\<open>format\<close> in its \<^verbatim>\<open>apply\<close>, and the installed plugin
  registers \<^verbatim>\<open>lint\<close> in the discovery pass. The apply pass ends with the list
  \<^verbatim>\<open>[format]\<close>, the saved list is \<^verbatim>\<open>[lint]\<close>, and the constructed generator holds
  \<^verbatim>\<open>[lint]\<close>, not \<^verbatim>\<open>[format, lint]\<close>: line 143 assigns the saved list over the one
  the apply pass built.
\<close>

theorem Generator_apply_pass_cbs_lost:
  "afterAnyInvokeCbs (apply_pass is_plugin_id eslint_module no_root_options sample_args)
     = [''format'']
   \<and> afterAnyInvokeCbs (discovery_pass is_plugin_id eslint_module no_root_options sample_args)
     = [''lint'']
   \<and> afterAnyInvokeCbs (Generator is_plugin_id eslint_module no_root_options sample_args)
     = [''lint'']"
  by (simp add: Generator_def apply_pass_def discovery_pass_def Let_def init_generator_def
      eslint_pkg_def keys_or_empty_def js_get_def is_plugin_id_def starts_with_def strip_scope_def
      discover_one_def eslint_module_def lint_hooks_def run_calls_def apply_one_def
      sample_args_def babel_plugin_def format_apply_def root_options_def no_root_options_def)

text \<open>
  C1, amended. After the constructor's apply pass, the generator's after-any-invoke list
  is the list saved before the apply pass: the caller-supplied callbacks followed by the
  callbacks that the \<^verbatim>\<open>hooks\<close> exports of the installed plugins registered in the
  discovery pass, in the order of the installed set. It does not depend on what the
  apply pass registered.
\<close>

theorem Generator_afterAnyInvokeCbs:
  "afterAnyInvokeCbs (Generator isPlugin loadModule inferRootOptions a)
   = arg_afterAnyInvokeCbs a
     @ concat (map (discovered_cbs loadModule (root_options inferRootOptions a)
                      (map plugin_id (arg_plugins a)))
         (filter isPlugin
            (keys_or_empty (arg_pkg a) ''dependencies''
             @ keys_or_empty (arg_pkg a) ''devDependencies'')))"
  by (simp add: Generator_def discovery_pass_def Let_def fold_discover_any init_generator_def)

text \<open>
  C2, as stated, fails. In the sample run the installed set is
  \<^verbatim>\<open>[@vue/cli-plugin-eslint]\<close> and the invocation list is \<^verbatim>\<open>[@vue/cli-plugin-babel]\<close>;
  the discovery pass calls the \<^verbatim>\<open>hooks\<close> export of the eslint plugin with the ids of
  the invocation list, not with the installed set.
\<close>

theorem discovery_pass_passes_invocation_ids:
  "plugin_calls (discovery_pass is_plugin_id eslint_module no_root_options sample_args)
     = [HooksCalled ''@vue/cli-plugin-eslint'' (JObj []) (JObj []) [''@vue/cli-plugin-babel'']]
   \<and> allPlugins (discovery_pass is_plugin_id eslint_module no_root_options sample_args)
     = [''@vue/cli-plugin-eslint'']"
  by (simp add: discovery_pass_def Let_def init_generator_def
      eslint_pkg_def keys_or_empty_def js_get_def is_plugin_id_def starts_with_def strip_scope_def
      discover_one_def eslint_module_def lint_hooks_def run_calls_def
      sample_args_def babel_plugin_def root_options_def no_root_options_def)

text \<open>
  C2, amended. The discovery pass goes through the installed set (the keys of
  \<^verbatim>\<open>dependencies\<close>, then those of \<^verbatim>\<open>devDependencies\<close>, that are plugin ids) in order
  and, for each plugin whose generator module exports \<^verbatim>\<open>hooks\<close>, calls it once with
  empty options, the root options, and the ordered list of the ids of the plugins in the
  explicit invocation list. It calls no other plugin code.
\<close>

theorem discovery_pass_hook_calls:
  "plugin_calls (discovery_pass isPlugin loadModule inferRootOptions a)
   = concat (map (discovery_call loadModule (root_options inferRootOptions a)
                      (map plugin_id (arg_plugins a)))
         (filter isPlugin
            (keys_or_empty (arg_pkg a) ''dependencies''
             @ keys_or_empty (arg_pkg a) ''devDependencies'')))"
  by (simp add: discovery_pass_def Let_def fold_discover_calls init_generator_def)

section \<open>Results on config extraction\<close>

lemma map_of_filter_fst:
  "map_of (filter (\<lambda>kv. P (fst kv)) p) k = (if P k then map_of p k else None)"
  by (induction p) auto

lemma js_get_filter_fst:
  "js_get (filter (\<lambda>kv. P (fst kv)) p) k = (if P k then js_get p k else JUndefined)"
  by (simp add: js_get_def map_of_filter_fst)

lemma js_get_delete_other: "k' \<noteq> k \<Longrightarrow> js_get (js_delete p k) k' = js_get p k'"
  unfolding js_delete_def using js_get_filter_fst [of "\<lambda>x. x \<noteq> k" p k'] by simp

lemma move_field_Inr:
  assumes "move_field cts ce k s = Inr s'"
  shows "pkg s' = js_delete (pkg s) k" and "originalPkg s' = originalPkg s"
    and "configTransforms s' = configTransforms s"
  using assms by (auto simp: move_field_def split: option.splits sum.splits)

lemma extractable_after_move:
  assumes "move_field cts ce k s = Inr s'" and "k' \<noteq> k"
  shows "extractable cts s' k' = extractable cts s k'"
  using move_field_Inr [OF assms(1)] assms(2)
  by (simp add: extractable_def js_get_delete_other)

text \<open>
  Calling \<^verbatim>\<open>extract\<close> on each of a list of distinct keys moves exactly those of them
  that pass the guard in the state before the loop, in order.
\<close>

lemma each_key_extract_eq_move:
  "distinct ks \<Longrightarrow>
   each_key (extract_key cts ce) ks s
   = each_key (move_field cts ce) (filter (extractable cts s) ks) s"
proof (induction ks arbitrary: s)
  case Nil
  show ?case by simp
next
  case (Cons k ks)
  from Cons.prems have d: "distinct ks" and nk: "k \<notin> set ks" by auto
  show ?case
  proof (cases "extractable cts s k")
    case False
    then show ?thesis using Cons.IH [OF d, of s] by (simp add: extract_key_def)
  next
    case True
    show ?thesis
    proof (cases "move_field cts ce k s")
      case (Inl e)
      with True show ?thesis by (simp add: extract_key_def)
    next
      case (Inr s')
      have "extractable cts s' x = extractable cts s x" if "x \<in> set ks" for x
        using extractable_after_move [OF Inr, of x] that nk by auto
      then have "filter (extractable cts s') ks = filter (extractable cts s) ks"
        by (intro filter_cong) auto
      with True Inr Cons.IH [OF d, of s'] show ?thesis by (simp add: extract_key_def)
    qed
  qed
qed

lemma each_key_move_Inr:
  "each_key (move_field cts ce) ks s = Inr s' \<Longrightarrow>
   pkg s' = filter (\<lambda>kv. fst kv \<notin> set ks) (pkg s) \<and> originalPkg s' = originalPkg s
   \<and> configTransforms s' = configTransforms s"
proof (induction ks arbitrary: s)
  case Nil
  then show ?case by simp
next
  case (Cons k ks)
  then obtain s1 where m: "move_field cts ce k s = Inr s1"
    and r: "each_key (move_field cts ce) ks s1 = Inr s'"
    by (auto split: sum.splits)
  from Cons.IH [OF r] move_field_Inr [OF m]
  show ?case by (auto simp: js_delete_def intro: filter_cong)
qed

lemma extractConfigFiles_as_loop:
  "extractConfigFiles mk env ea ce s =
   each_key (extract_key (merged_transforms mk s) ce) (extract_targets env ea s) s"
  by (simp add: extractConfigFiles_def extract_targets_def Let_def split: sum.splits)

lemma distinct_targets:
  "distinct (map fst (pkg s)) \<Longrightarrow> distinct (extract_targets env ea s)"
  by (simp add: extract_targets_def)

lemma extractConfigFiles_moves:
  assumes "distinct (map fst (pkg s))"
  shows "extractConfigFiles mk env ea ce s =
     each_key (move_field (merged_transforms mk s) ce)
       (filter (extractable (merged_transforms mk s) s) (extract_targets env ea s)) s"
  using each_key_extract_eq_move [OF distinct_targets [OF assms]]
  by (simp add: extractConfigFiles_as_loop)

lemma extractConfigFiles_Inr:
  assumes "distinct (map fst (pkg s))" and "extractConfigFiles mk env ea ce s = Inr s'"
  shows "pkg s' = filter (\<lambda>kv. \<not> (fst kv \<in> set (extract_targets env ea s)
                              \<and> extractable (merged_transforms mk s) s (fst kv))) (pkg s)"
    and "originalPkg s' = originalPkg s" and "configTransforms s' = configTransforms s"
  using each_key_move_Inr [of "merged_transforms mk s" ce
      "filter (extractable (merged_transforms mk s) s) (extract_targets env ea s)" s s']
    assms extractConfigFiles_moves [OF assms(1), of mk env ea ce]
  by auto

lemma each_key_none_extractable:
  "\<forall>k\<in>set ks. \<not> extractable cts s k \<Longrightarrow> each_key (extract_key cts ce) ks s = Inr s"
  by (induction ks) (simp_all add: extract_key_def)

lemma merged_transforms_cong:
  "configTransforms s' = configTransforms s \<Longrightarrow> merged_transforms mk s' = merged_transforms mk s"
  by (simp add: merged_transforms_def)

lemma truthy_js_get_in_keys: "truthy (js_get p k) \<Longrightarrow> k \<in> fst ` set p"
  by (auto simp: js_get_def split: option.splits dest: map_of_SomeD intro: rev_image_eqI)

text \<open>
  \<^verbatim>\<open>extract\<close> returns the state as it is, and raises nothing, when no transform is
  registered for the key, when the manifest has no truthy value for it, or when the
  original manifest has a truthy value for it.
\<close>

lemma extract_key_noop:
  "map_of cts key = None \<or> \<not> truthy (js_get (pkg s) key)
   \<or> truthy (js_get (originalPkg s) key) \<Longrightarrow>
   extract_key cts ce key s = Inr s"
  by (auto simp: extract_key_def extractable_def)

text \<open>
  A field whose value in the original manifest is truthy is neither removed nor
  rewritten by a run of \<^verbatim>\<open>extractConfigFiles\<close> that returns.
\<close>

lemma extractConfigFiles_keeps_truthy_original:
  assumes d: "distinct (map fst (pkg s))" and r: "extractConfigFiles mk env ea ce s = Inr s'"
    and t: "truthy (js_get (originalPkg s) k)"
  shows "map_of (pkg s') k = map_of (pkg s) k"
  using extractConfigFiles_Inr(1) [OF d r] t
    map_of_filter_fst [of "\<lambda>k. \<not> (k \<in> set (extract_targets env ea s)
        \<and> extractable (merged_transforms mk s) s k)" "pkg s" k]
  by (simp add: extractable_def)

text \<open>
  A second run of \<^verbatim>\<open>extractConfigFiles\<close> with the same arguments, after a first one
  that returned, changes neither the manifest nor the tree, and returns.
\<close>

lemma extractConfigFiles_idempotent:
  assumes d: "distinct (map fst (pkg s))" and r: "extractConfigFiles mk env ea ce s = Inr s'"
  shows "extractConfigFiles mk env ea ce s' = Inr s'"
proof -
  let ?cts = "merged_transforms mk s"
  let ?Q = "\<lambda>k. \<not> (k \<in> set (extract_targets env ea s) \<and> extractable ?cts s k)"
  note e = extractConfigFiles_Inr [OF d r]
  have cts: "merged_transforms mk s' = ?cts" using e(3) by (rule merged_transforms_cong)
  have g: "js_get (pkg s') k = (if ?Q k then js_get (pkg s) k else JUndefined)" for k
    using js_get_filter_fst [of ?Q "pkg s" k] e(1) by simp
  have "\<not> extractable ?cts s' k" if "k \<in> set (extract_targets env ea s')" for k
  proof
    assume x: "extractable ?cts s' k"
    then have t: "truthy (js_get (pkg s') k)" by (simp add: extractable_def)
    with g [of k] have q: "?Q k" and same: "js_get (pkg s') k = js_get (pkg s) k"
      by (auto split: if_splits)
    from x same e(2) have x0: "extractable ?cts s k" by (simp add: extractable_def)
    have "k \<in> set (extract_targets env ea s)"
    proof (cases ea)
      case True
      from t same have "k \<in> fst ` set (pkg s)" using truthy_js_get_in_keys by metis
      with True show ?thesis by (simp add: extract_targets_def)
    next
      case False
      with that show ?thesis by (simp add: extract_targets_def)
    qed
    with q x0 show False by simp
  qed
  then have "each_key (extract_key ?cts ce) (extract_targets env ea s') s' = Inr s'"
    by (intro each_key_none_extractable) simp
  then show ?thesis by (simp add: extractConfigFiles_as_loop cts)
qed

text \<open>
  C5: the code does not keep the claim. The guard of \<^verbatim>\<open>extract\<close> tests
  \<^verbatim>\<open>!this.originalPkg[key]\<close>, the truthiness of the original value, where its comment
  says "do not extract if the field exists in original package.json". With the original
  manifest \<^verbatim>\<open>{ "name": "app", "babel": null }\<close> and a \<^verbatim>\<open>babel\<close> field set by a plugin,
  the default extraction removes \<^verbatim>\<open>babel\<close> from the working manifest although the
  original manifest has the field.
\<close>

theorem extractConfigFiles_removes_null_original_field:
  "map_of (originalPkg null_babel_generator) ''babel'' = Some JNull
   \<and> map_of (pkg null_babel_generator) ''babel'' = Some babel_value
   \<and> extractConfigFiles sample_transform None False False null_babel_generator
     = Inr (null_babel_generator
              \<lparr>pkg := [(''name'', JStr ''app'')],
               files := [(''babel.config.js'', ''module.exports = {}'' @ [newline])]\<rparr>)"
  by (simp add: extractConfigFiles_def Let_def extract_key_def extractable_def move_field_def
      merged_transforms_def null_babel_generator_def generator_with_def init_generator_def
      object_assign_def defaultConfigTransforms_def reservedConfigTransforms_def js_get_def
      env_set_def babel_value_def sample_transform_def first_candidate_def ensureEOL_def
      js_delete_def newline_def keys_or_empty_def)

text \<open>
  C6: the code does not keep the claim, by the defect of C5. Idempotence holds
  (\<open>extractConfigFiles_idempotent\<close>), and \<^verbatim>\<open>extract\<close> returns the state unchanged when
  the field is absent or has no transform (\<open>extract_key_noop\<close>); but a field that was in
  the original manifest with a falsy value is extracted. With the original manifest
  \<^verbatim>\<open>{ "name": "app", "jest": false }\<close> and a \<^verbatim>\<open>jest\<close> field set by a plugin, the call
  \<^verbatim>\<open>extract('jest')\<close> is not a no-op: it writes \<^verbatim>\<open>jest.config.js\<close> and deletes the field.
\<close>

theorem extract_key_moves_false_original_field:
  "map_of (originalPkg false_jest_generator) ''jest'' = Some (JBool False)
   \<and> extract_key (merged_transforms sample_transform false_jest_generator) False ''jest''
       false_jest_generator
     = Inr (false_jest_generator
              \<lparr>pkg := [(''name'', JStr ''app'')],
               files := [(''jest.config.js'', ''module.exports = {}'' @ [newline])]\<rparr>)
   \<and> extractConfigFiles sample_transform None True False false_jest_generator
     = Inr (false_jest_generator
              \<lparr>pkg := [(''name'', JStr ''app'')],
               files := [(''jest.config.js'', ''module.exports = {}'' @ [newline])]\<rparr>)"
  by (simp add: extractConfigFiles_def Let_def extract_key_def extractable_def move_field_def
      merged_transforms_def false_jest_generator_def generator_with_def init_generator_def
      object_assign_def defaultConfigTransforms_def reservedConfigTransforms_def js_get_def
      env_set_def jest_value_def sample_transform_def first_candidate_def ensureEOL_def
      js_delete_def newline_def keys_or_empty_def)

lemma move_field_Some:
  "map_of cts key = Some t \<Longrightarrow> t (js_get (pkg s) key) ce (files s) = Inr (content, filename) \<Longrightarrow>
   move_field cts ce key s
   = Inr (s\<lparr>files := js_set (files s) filename (ensureEOL content),
           pkg := js_delete (pkg s) key\<rparr>)"
  by (simp add: move_field_def)

lemma move_field_raises:
  "map_of cts key = Some t \<Longrightarrow> t (js_get (pkg s) key) ce (files s) = Inl e \<Longrightarrow>
   move_field cts ce key s = Inl e"
  by (simp add: move_field_def)

text \<open>
  C9, as stated, fails. \<^verbatim>\<open>extractConfigFiles\<close> calls \<^verbatim>\<open>extract\<close> on its target
  fields, and \<^verbatim>\<open>extract\<close> moves a field only when the field passes the guard of lines
  170 to 175. In the first run \<^verbatim>\<open>extractAll\<close> is true and \<^verbatim>\<open>jest\<close>, which has a
  registered transform and a value in the manifest, stays in the manifest, because the
  original manifest has it. In the second run the default extraction leaves \<^verbatim>\<open>babel\<close>
  in the manifest and writes no file, for the same reason.
\<close>

theorem extractConfigFiles_guarded:
  \<open>''jest'' \<in> set (map fst (merged_transforms script_transform fresh_fields_generator))
   \<and> js_get (pkg fresh_fields_generator) ''jest'' = jest_value
   \<and> extractConfigFiles script_transform None True False fresh_fields_generator
     = Inr (fresh_fields_generator
              \<lparr>pkg := [(''name'', JStr ''app''), (''jest'', jest_value),
                       (''license'', JStr ''MIT'')],
               files :=
                 [(''babel.config.js'',
                   unlines
                     [''module.exports = {'',
                      ''  "presets": ['',
                      ''    "@vue/cli-plugin-babel/preset"'',
                      ''  ]'',
                      ''}'']),
                  (''vue.config.js'',
                   unlines
                     [''module.exports = {'',
                      ''  "lintOnSave": false'',
                      ''}''])]\<rparr>)
   \<and> js_get (pkg original_babel_generator) ''babel'' = babel_value
   \<and> extractConfigFiles script_transform None False False original_babel_generator
     = Inr original_babel_generator\<close>
  by (simp add: extractConfigFiles_def Let_def extract_key_def extractable_def move_field_def
      merged_transforms_def fresh_fields_generator_def original_babel_generator_def
      generator_with_def init_generator_def
      object_assign_def defaultConfigTransforms_def reservedConfigTransforms_def js_get_def
      env_set_def jest_value_def babel_value_def vue_value_def script_transform_def
      target_file_def first_candidate_def ensureEOL_def js_delete_def newline_def
      keys_or_empty_def unlines_def block_def quote_def escape_char_def indent_def
      dquote_def backslash_def)

text \<open>
  C9, amended. \<^verbatim>\<open>extractConfigFiles\<close> calls \<^verbatim>\<open>extract\<close> on its target fields and
  on nothing else: with \<^verbatim>\<open>extractAll\<close>, the targets are all the fields of the manifest;
  without it, they are \<^verbatim>\<open>vue\<close> then \<^verbatim>\<open>babel\<close>, or \<^verbatim>\<open>babel\<close> alone when the test
  flag \<^verbatim>\<open>VUE_CLI_TEST\<close> is set. A target is moved when it passes the guard in the
  manifest as it is before the run: a transform is registered for it, its value is truthy
  and its value in the original manifest is not. The run is the sequence of these moves,
  in the order of the targets; a move hands the value, \<^verbatim>\<open>checkExisting\<close> and the tree
  to the transform, writes the content it returns, ended by a line feed, under the file
  name it returns, and deletes the field; what the transform raises ends the run. When
  the run returns, the manifest has lost exactly the moved fields. With \<^verbatim>\<open>extractAll\<close>
  the field names are taken not to be names of members of \<^verbatim>\<open>Object.prototype\<close>, which
  the lookups of the guard would find by inheritance.
\<close>

theorem extractConfigFiles_extracts_targets:
  assumes "distinct (map fst (pkg s))"
    and "extractAll \<longrightarrow> (\<forall>k \<in> set (map fst (pkg s)). k \<notin> set object_prototype_members)"
  shows "extractConfigFiles mk VUE_CLI_TEST extractAll checkExisting s
      = each_key (move_field (merged_transforms mk s) checkExisting)
          (filter (extractable (merged_transforms mk s) s)
             (if extractAll then map fst (pkg s)
              else if env_set VUE_CLI_TEST then [''babel''] else [''vue'', ''babel''])) s
    \<and> (\<forall>s'. extractConfigFiles mk VUE_CLI_TEST extractAll checkExisting s = Inr s' \<longrightarrow>
          pkg s' =
            filter (\<lambda>kv. \<not> (fst kv \<in> set (if extractAll then map fst (pkg s)
                                           else if env_set VUE_CLI_TEST then [''babel'']
                                           else [''vue'', ''babel''])
                            \<and> extractable (merged_transforms mk s) s (fst kv))) (pkg s))
    \<and> (\<forall>key. extractable (merged_transforms mk s) s key
          = (key \<in> set (map fst (merged_transforms mk s))
             \<and> truthy (js_get (pkg s) key) \<and> \<not> truthy (js_get (originalPkg s) key)))
    \<and> (\<forall>cts key t s0 content filename.
          map_of cts key = Some t
          \<and> t (js_get (pkg s0) key) checkExisting (files s0) = Inr (content, filename) \<longrightarrow>
          move_field cts checkExisting key s0
          = Inr (s0\<lparr>files := js_set (files s0) filename (ensureEOL content),
                  pkg := js_delete (pkg s0) key\<rparr>))
    \<and> (\<forall>cts key t s0 e.
          map_of cts key = Some t
          \<and> t (js_get (pkg s0) key) checkExisting (files s0) = Inl e \<longrightarrow>
          move_field cts checkExisting key s0 = Inl e)"
proof -
  have t: "(if extractAll then map fst (pkg s)
            else if env_set VUE_CLI_TEST then [''babel''] else [''vue'', ''babel''])
           = extract_targets VUE_CLI_TEST extractAll s"
    by (simp add: extract_targets_def)
  have g: "\<forall>key. extractable (merged_transforms mk s) s key
          = (key \<in> set (map fst (merged_transforms mk s))
             \<and> truthy (js_get (pkg s) key) \<and> \<not> truthy (js_get (originalPkg s) key))"
    by (simp add: extractable_def map_of_eq_None_iff)
  show ?thesis
    unfolding t
  proof (intro conjI allI impI)
    show "extractConfigFiles mk VUE_CLI_TEST extractAll checkExisting s
      = each_key (move_field (merged_transforms mk s) checkExisting)
          (filter (extractable (merged_transforms mk s) s)
             (extract_targets VUE_CLI_TEST extractAll s)) s"
      by (rule extractConfigFiles_moves [OF assms(1)])
  next
    fix s'
    assume "extractConfigFiles mk VUE_CLI_TEST extractAll checkExisting s = Inr s'"
    then show "pkg s' =
            filter (\<lambda>kv. \<not> (fst kv \<in> set (extract_targets VUE_CLI_TEST extractAll s)
                            \<and> extractable (merged_transforms mk s) s (fst kv))) (pkg s)"
      by (rule extractConfigFiles_Inr(1) [OF assms(1)])
  next
    fix key
    show "extractable (merged_transforms mk s) s key
          = (key \<in> set (map fst (merged_transforms mk s))
             \<and> truthy (js_get (pkg s) key) \<and> \<not> truthy (js_get (originalPkg s) key))"
      using g by blast
  next
    fix cts :: "(string \<times> transform) list" and key t and s0 :: generator
      and content filename
    assume "map_of cts key = Some t
          \<and> t (js_get (pkg s0) key) checkExisting (files s0) = Inr (content, filename)"
    then show "move_field cts checkExisting key s0
          = Inr (s0\<lparr>files := js_set (files s0) filename (ensureEOL content),
                  pkg := js_delete (pkg s0) key\<rparr>)"
      by (simp add: move_field_Some)
  next
    fix cts :: "(string \<times> transform) list" and key t and s0 :: generator and e
    assume "map_of cts key = Some t
          \<and> t (js_get (pkg s0) key) checkExisting (files s0) = Inl e"
    then show "move_field cts checkExisting key s0 = Inl e"
      by (simp add: move_field_raises)
  qed
qed

theorem extractConfigFiles_extracts_targets_witness:
  \<open>distinct (map fst (pkg config_generator))
   \<and> extractConfigFiles script_transform None True True config_generator
     = Inr (config_generator
              \<lparr>pkg := [(''name'', JStr ''app''), (''jest'', jest_value),
                       (''license'', JStr ''MIT'')],
               files :=
                 [(''.eslintrc.json'',
                   unlines [''module.exports = {'', ''  "root": true'', ''}'']),
                  (''babel.config.js'',
                   unlines
                     [''module.exports = {'',
                      ''  "presets": ['',
                      ''    "@vue/cli-plugin-babel/preset"'',
                      ''  ]'',
                      ''}'']),
                  (''vue.config.js'',
                   unlines [''module.exports = {'', ''  "lintOnSave": false'', ''}'']),
                  (''.browserslistrc'', unlines [''> 1%'', ''last 2 versions''])]\<rparr>)
   \<and> extractConfigFiles script_transform (Some ''true'') False False config_generator
     = Inr (config_generator
              \<lparr>pkg := [(''name'', JStr ''app''), (''jest'', jest_value),
                       (''eslintConfig'', JObj [(''root'', JBool True)]), (''vue'', vue_value),
                       (''license'', JStr ''MIT''),
                       (''browserslist'', JArr [JStr ''> 1%'', JStr ''last 2 versions''])],
               files :=
                 [(''.eslintrc.json'', ''{}''),
                  (''babel.config.js'',
                   unlines
                     [''module.exports = {'',
                      ''  "presets": ['',
                      ''    "@vue/cli-plugin-babel/preset"'',
                      ''  ]'',
                      ''}''])]\<rparr>)
   \<and> extractConfigFiles script_transform None False False config_generator
     = Inr (config_generator
              \<lparr>pkg := [(''name'', JStr ''app''), (''jest'', jest_value),
                       (''eslintConfig'', JObj [(''root'', JBool True)]),
                       (''license'', JStr ''MIT''),
                       (''browserslist'', JArr [JStr ''> 1%'', JStr ''last 2 versions''])],
               files :=
                 [(''.eslintrc.json'', ''{}''),
                  (''vue.config.js'',
                   unlines [''module.exports = {'', ''  "lintOnSave": false'', ''}'']),
                  (''babel.config.js'',
                   unlines
                     [''module.exports = {'',
                      ''  "presets": ['',
                      ''    "@vue/cli-plugin-babel/preset"'',
                      ''  ]'',
                      ''}''])]\<rparr>)
   \<and> extractConfigFiles failing_transform None True False config_generator
     = Inl (TransformError ''cannot write'')\<close>
  using extractConfigFiles_extracts_targets
    [where s = config_generator and mk = script_transform and VUE_CLI_TEST = None
       and extractAll = True and checkExisting = True]
  by (simp add: extractConfigFiles_def Let_def extract_key_def extractable_def move_field_def
      merged_transforms_def config_generator_def
      generator_with_def init_generator_def
      object_assign_def defaultConfigTransforms_def reservedConfigTransforms_def js_get_def
      env_set_def jest_value_def babel_value_def vue_value_def script_transform_def
      failing_transform_def candidates_def
      target_file_def first_candidate_def ensureEOL_def js_delete_def newline_def
      keys_or_empty_def unlines_def block_def quote_def escape_char_def indent_def
      dquote_def backslash_def object_prototype_members_def)

section \<open>Results on the plugin registry\<close>

text \<open>
  C8. \<^verbatim>\<open>hasPlugin\<close> has no raising step of its own: with collaborators that return,
  it returns a boolean. The result is true exactly when some id among the ids of the
  invocation list and the installed set matches the queried id and, if a version range is
  given (the second argument is a non-empty string), the installed version of that plugin
  is resolved and satisfies the range. An unmatched id, an unresolved installed version
  and an unsatisfied range all give false.
\<close>

theorem hasPlugin_iff:
  "hasPlugin matchesPluginId getInstalledVersion sat g qid qversion
   = (\<exists>i \<in> set (map plugin_id (plugins g) @ allPlugins g).
        matchesPluginId qid i
        \<and> (version_given qversion \<longrightarrow>
             (\<exists>v rng. getInstalledVersion i = Some v \<and> qversion = Some rng
                \<and> sat v rng)))"
  unfolding hasPlugin_def list_ex_iff
  by (rule bex_cong [OF refl])
     (auto simp: semver_satisfies_def version_given_def split: option.splits)

theorem hasPlugin_iff_witness:
  "hasPlugin matches_plugin_id sample_versions same_major
     (Generator is_plugin_id eslint_module no_root_options sample_args)
     ''eslint'' (Some ''^2.0.0'') = False
   \<and> hasPlugin matches_plugin_id sample_versions same_major
     (Generator is_plugin_id eslint_module no_root_options sample_args)
     ''eslint'' (Some ''^1.0.0'') = True
   \<and> hasPlugin matches_plugin_id sample_versions same_major
     (Generator is_plugin_id eslint_module no_root_options sample_args)
     ''babel'' (Some ''^1.0.0'') = False
   \<and> hasPlugin matches_plugin_id sample_versions same_major
     (Generator is_plugin_id eslint_module no_root_options sample_args)
     ''babel'' None = True
   \<and> hasPlugin matches_plugin_id sample_versions same_major
     (Generator is_plugin_id eslint_module no_root_options sample_args)
     ''router'' None = False"
  using hasPlugin_iff [of matches_plugin_id sample_versions same_major
      "Generator is_plugin_id eslint_module no_root_options sample_args" "''eslint''"
      "Some ''^2.0.0''"]
  by (simp add: hasPlugin_def Generator_def apply_pass_def discovery_pass_def Let_def
      init_generator_def eslint_pkg_def keys_or_empty_def js_get_def is_plugin_id_def
      starts_with_def strip_scope_def discover_one_def eslint_module_def lint_hooks_def
      run_calls_def apply_one_def sample_args_def babel_plugin_def format_apply_def
      root_options_def no_root_options_def matches_plugin_id_def short_plugin_id_def
      sample_versions_def same_major_def semver_satisfies_def version_given_def)

section \<open>Results on sorting the manifest\<close>

lemma map_of_js_set: "map_of (js_set m k v) = (map_of m)(k \<mapsto> v)"
  by (induction m k v rule: js_set.induct) auto

lemma js_get_js_set: "js_get (js_set m k v) k' = (if k' = k then v else js_get m k')"
  by (simp add: js_get_def map_of_js_set)

lemma filter_unlisted_js_set:
  "k \<in> set order \<Longrightarrow>
   filter (\<lambda>kv. fst kv \<notin> set order) (js_set m k v) = filter (\<lambda>kv. fst kv \<notin> set order) m"
  by (induction m k v rule: js_set.induct) auto

lemma filter_by_key:
  "distinct (map fst m) \<Longrightarrow>
   filter (\<lambda>kv. P (fst kv)) m = map (\<lambda>k. (k, the (map_of m k))) (filter P (map fst m))"
proof (induction m)
  case Nil
  show ?case by simp
next
  case (Cons kv m)
  obtain k v where kv: "kv = (k, v)" by (cases kv)
  from Cons.prems kv have d: "distinct (map fst m)" and nk: "k \<notin> fst ` set m" by auto
  have "map (\<lambda>x. (x, the (map_of (kv # m) x))) (filter P (map fst m))
        = map (\<lambda>x. (x, the (map_of m x))) (filter P (map fst m))"
    using nk kv by (intro map_cong) auto
  with Cons.IH [OF d] kv show ?case by simp
qed

lemma entries_by_key:
  "distinct (map fst m) \<Longrightarrow> m = map (\<lambda>k. (k, the (map_of m k))) (map fst m)"
  using filter_by_key [of m "\<lambda>k. True"] by simp

lemma same_keys_same_list:
  assumes "distinct (map fst xs)" and "map fst xs = map fst ys" and "set xs = set ys"
  shows "xs = ys"
proof -
  from assms have dy: "distinct (map fst ys)" by simp
  from assms(1) dy assms(3) have m: "map_of xs = map_of ys" by (simp add: map_of_inject_set)
  have "xs = map (\<lambda>k. (k, the (map_of xs k))) (map fst xs)"
    using assms(1) by (rule entries_by_key)
  also have "\<dots> = map (\<lambda>k. (k, the (map_of ys k))) (map fst ys)"
    by (simp only: m assms(2))
  also have "\<dots> = ys" using entries_by_key [OF dy] by simp
  finally show ?thesis .
qed

lemma sort_key_same_entries:
  assumes "same_entries a b"
  shows "sort_key fst a = sort_key fst b"
proof -
  from assms have da: "distinct (map fst a)" and db: "distinct (map fst b)"
    and ab: "set a = set b"
    by (simp_all add: same_entries_def)
  have i: "inj_on fst (set (sort_key fst a) \<union> set (sort_key fst b))"
    using da ab by (simp add: distinct_map)
  have dsa: "distinct (map fst (sort_key fst a))" using da by (simp add: distinct_map)
  have dsb: "distinct (map fst (sort_key fst b))" using db by (simp add: distinct_map)
  have s: "set (sort_key fst a) = set (sort_key fst b)" using ab by simp
  show ?thesis
    by (rule map_sorted_distinct_set_unique [OF i sorted_sort_key dsa sorted_sort_key dsb s])
qed

lemma same_entries_filter:
  "same_entries a b \<Longrightarrow>
   same_entries (filter (\<lambda>kv. P (fst kv)) a) (filter (\<lambda>kv. P (fst kv)) b)"
  by (auto simp: same_entries_def distinct_map_filter)

lemma same_entries_js_get:
  assumes "same_entries a b"
  shows "js_get a k = js_get b k"
proof -
  from assms have "map_of a = map_of b"
    by (simp add: same_entries_def map_of_inject_set)
  then show ?thesis by (simp add: js_get_def)
qed

lemma sort_keys_same_entries:
  assumes "same_entries a b"
  shows "sort_keys a keyOrder = sort_keys b keyOrder"
proof (cases keyOrder)
  case None
  with sort_key_same_entries [OF assms] show ?thesis
    by (simp add: sort_keys_def listed_entries_def unlisted_entries_def)
next
  case (Some order)
  have "sort_key fst (filter (\<lambda>kv. fst kv \<notin> set order) a)
        = sort_key fst (filter (\<lambda>kv. fst kv \<notin> set order) b)"
    using same_entries_filter [OF assms, of "\<lambda>k. k \<notin> set order"]
    by (rule sort_key_same_entries)
  with Some same_entries_js_get [OF assms] show ?thesis
    by (simp add: sort_keys_def listed_entries_def unlisted_entries_def)
qed

lemma sortObject_same_field: "same_field k v w \<Longrightarrow> sortObject v keyOrder = sortObject w keyOrder"
  by (induction k v w rule: same_field.induct) (auto dest: sort_keys_same_entries)

lemma same_field_plain: "k \<notin> set sorted_fields \<Longrightarrow> same_field k v w \<Longrightarrow> v = w"
  by (induction k v w rule: same_field.induct) auto


lemma sort_manifest_shape:
  "sort_manifest p =
     map (\<lambda>k. (k, if k = ''scripts''
                   then sortObject (js_get p ''scripts'') (Some script_order)
                   else if k = ''devDependencies''
                   then sortObject (js_get p ''devDependencies'') None
                   else if k = ''dependencies''
                   then sortObject (js_get p ''dependencies'') None
                   else js_get p k)) pkg_order
     @ sort_key fst (filter (\<lambda>kv. fst kv \<notin> set pkg_order) p)"
proof -
  have d: "''dependencies'' \<in> set pkg_order" and dd: "''devDependencies'' \<in> set pkg_order"
    and sc: "''scripts'' \<in> set pkg_order"
    by (simp_all add: pkg_order_def)
  have n: "(''scripts'' = ''devDependencies'') = False"
    "(''devDependencies'' = ''dependencies'') = False"
    "(''scripts'' = ''dependencies'') = False"
    by simp_all
  show ?thesis
    unfolding sort_manifest_def Let_def sort_keys_def listed_entries_def
      unlisted_entries_def option.case js_get_js_set n if_False
      filter_unlisted_js_set [OF d] filter_unlisted_js_set [OF dd] filter_unlisted_js_set [OF sc]
    by (rule refl)
qed

lemma js_get_absent: "k \<notin> fst ` set m \<Longrightarrow> js_get m k = JUndefined"
  by (simp add: js_get_def map_of_eq_None_iff [THEN iffD2])

lemma js_get_present: "distinct (map fst m) \<Longrightarrow> (k, v) \<in> set m \<Longrightarrow> js_get m k = v"
  by (simp add: js_get_def)

lemma present_js_get: "k \<in> fst ` set m \<Longrightarrow> (k, js_get m k) \<in> set m"
  by (auto simp: js_get_def split: option.splits dest: map_of_SomeD
      simp: map_of_eq_None_iff)

text \<open>
  C3, as stated, fails. \<^verbatim>\<open>sortPkg\<close> orders the keys of the manifest and of its
  \<^verbatim>\<open>dependencies\<close>, \<^verbatim>\<open>devDependencies\<close> and \<^verbatim>\<open>scripts\<close>, and nothing else, and the
  serialization prints every other object in the insertion order of its keys. The
  manifests \<open>manifest_p\<close> and \<open>manifest_q\<close> have the same fields with the same key/value
  pairs; the two keys of their \<^verbatim>\<open>babel\<close> field were inserted in different orders, and
  the two serializations differ.
\<close>

theorem sort_manifest_nested_order:
  \<open>map fst manifest_p = map fst manifest_q
   \<and> js_get manifest_p ''name'' = js_get manifest_q ''name''
   \<and> js_get manifest_p ''babel'' = JObj babel_p
   \<and> js_get manifest_q ''babel'' = JObj babel_q
   \<and> same_entries babel_p babel_q
   \<and> serialize_manifest (sort_manifest manifest_p)
     = unlines
         [''{'',
          ''  "name": "app",'',
          ''  "babel": {'',
          ''    "presets": ['',
          ''      "@vue/app"'',
          ''    ],'',
          ''    "plugins": []'',
          ''  }'',
          ''}'']
   \<and> serialize_manifest (sort_manifest manifest_q)
     = unlines
         [''{'',
          ''  "name": "app",'',
          ''  "babel": {'',
          ''    "plugins": [],'',
          ''    "presets": ['',
          ''      "@vue/app"'',
          ''    ]'',
          ''  }'',
          ''}'']
   \<and> serialize_manifest (sort_manifest manifest_p)
     \<noteq> serialize_manifest (sort_manifest manifest_q)\<close>
  by (simp add: serialize_manifest_def sort_manifest_def manifest_p_def manifest_q_def
      babel_p_def babel_q_def same_entries_def js_get_def sort_keys_def listed_entries_def
      unlisted_entries_def pkg_order_def script_order_def block_def quote_def escape_char_def
      indent_def dquote_def backslash_def newline_def unlines_def insert_commute)

text \<open>
  C3, amended. Sorting followed by serialization gives the same bytes for two manifests
  that hold the same fields with the same values, whatever the insertion order of the
  fields and of the entries of \<^verbatim>\<open>dependencies\<close>, \<^verbatim>\<open>devDependencies\<close> and
  \<^verbatim>\<open>scripts\<close>; the value of any other field is the same in both, the order of its
  nested keys included.
\<close>

theorem sort_manifest_deterministic:
  assumes "same_contents m1 m2"
  shows "serialize_manifest (sort_manifest m1) = serialize_manifest (sort_manifest m2)"
proof -
  from assms have d1: "distinct (map fst m1)" and d2: "distinct (map fst m2)"
    and ks: "fst ` set m1 = fst ` set m2"
    by (simp_all add: same_contents_def)
  from assms have "list_all (\<lambda>k. same_field k (js_get m1 k) (js_get m2 k)) (map fst m1)"
    by (simp add: same_contents_def)
  then have fs: "\<forall>k \<in> fst ` set m1. same_field k (js_get m1 k) (js_get m2 k)"
    by (simp add: list_all_iff)
  have f: "same_field k (js_get m1 k) (js_get m2 k)" for k
  proof (cases "k \<in> fst ` set m1")
    case True
    with fs show ?thesis by blast
  next
    case False
    with ks have "js_get m1 k = JUndefined" "js_get m2 k = JUndefined"
      by (simp_all add: js_get_absent)
    then show ?thesis by simp
  qed
  have plain: "js_get m1 k = js_get m2 k" if "k \<notin> set sorted_fields" for k
    using same_field_plain [OF that f] .
  have so: "sortObject (js_get m1 k) ko = sortObject (js_get m2 k) ko" for k ko
    using sortObject_same_field [OF f] .
  have listed: "(if k = ''scripts''
                   then sortObject (js_get m1 ''scripts'') (Some script_order)
                   else if k = ''devDependencies''
                   then sortObject (js_get m1 ''devDependencies'') None
                   else if k = ''dependencies''
                   then sortObject (js_get m1 ''dependencies'') None
                   else js_get m1 k)
              = (if k = ''scripts''
                   then sortObject (js_get m2 ''scripts'') (Some script_order)
                   else if k = ''devDependencies''
                   then sortObject (js_get m2 ''devDependencies'') None
                   else if k = ''dependencies''
                   then sortObject (js_get m2 ''dependencies'') None
                   else js_get m2 k)" for k
    using so plain [of k] by (simp add: sorted_fields_def)
  have sub: "k \<notin> set sorted_fields" if "k \<notin> set pkg_order" for k
    using that by (auto simp: sorted_fields_def pkg_order_def)
  have incl: "(k, v) \<in> set mb" if "(k, v) \<in> set ma" and "k \<notin> set pkg_order"
    and "distinct (map fst ma)" and "fst ` set ma = fst ` set mb"
    and "js_get ma k = js_get mb k" for k v ma mb
  proof -
    from that(1,3) have "js_get ma k = v" by (simp add: js_get_present)
    moreover from that(1,4) have "k \<in> fst ` set mb" by force
    then have "(k, js_get mb k) \<in> set mb" by (rule present_js_get)
    ultimately show ?thesis using that(5) by simp
  qed
  have "set (filter (\<lambda>kv. fst kv \<notin> set pkg_order) m1)
        = set (filter (\<lambda>kv. fst kv \<notin> set pkg_order) m2)"
    using incl [of _ _ m1 m2] incl [of _ _ m2 m1] d1 d2 ks plain sub by auto
  then have "same_entries (filter (\<lambda>kv. fst kv \<notin> set pkg_order) m1)
                          (filter (\<lambda>kv. fst kv \<notin> set pkg_order) m2)"
    using d1 d2 by (simp add: same_entries_def distinct_map_filter)
  then have rest: "sort_key fst (filter (\<lambda>kv. fst kv \<notin> set pkg_order) m1)
                 = sort_key fst (filter (\<lambda>kv. fst kv \<notin> set pkg_order) m2)"
    by (rule sort_key_same_entries)
  have "sort_manifest m1 = sort_manifest m2"
    unfolding sort_manifest_shape rest listed by (rule refl)
  then show ?thesis by simp
qed

theorem sort_manifest_deterministic_witness:
  \<open>same_contents manifest_a manifest_b
   \<and> manifest_a \<noteq> manifest_b
   \<and> serialize_manifest (sort_manifest manifest_b)
     = unlines
         [''{'',
          ''  "name": "app",'',
          ''  "scripts": {'',
          ''    "serve": "vue-cli-service serve",'',
          ''    "lint": "vue-cli-service lint",'',
          ''    "clean": "rm -rf dist",'',
          ''    "zip": "zip -r dist"'',
          ''  },'',
          ''  "dependencies": {'',
          ''    "core-js": "^3.0.0",'',
          ''    "vue": "^2.6.0"'',
          ''  },'',
          ''  "homepage": "x.org",'',
          ''  "license": "MIT"'',
          ''}'']
   \<and> serialize_manifest (sort_manifest manifest_a)
     = serialize_manifest (sort_manifest manifest_b)
   \<and> sortObject JNull None = JUndefined
   \<and> sortObject (JStr []) (Some script_order) = JUndefined
   \<and> sortObject (JObj [(''b'', JStr ''2''), (''a'', JStr ''1'')]) (Some [''serve''])
     = JObj [(''serve'', JUndefined), (''a'', JStr ''1''), (''b'', JStr ''2'')]\<close>
proof -
  have o: "sortObject JNull None = JUndefined"
    "sortObject (JStr []) (Some script_order) = JUndefined"
    "sortObject (JObj [(''b'', JStr ''2''), (''a'', JStr ''1'')]) (Some [''serve''])
     = JObj [(''serve'', JUndefined), (''a'', JStr ''1''), (''b'', JStr ''2'')]"
    by (simp_all add: sort_keys_def listed_entries_def unlisted_entries_def js_get_def)
  have c: "same_contents manifest_a manifest_b"
    by (simp add: same_contents_def manifest_a_def manifest_b_def js_get_def
        same_entries_def sorted_fields_def insert_commute)
  have n: "manifest_a \<noteq> manifest_b"
    by (simp add: manifest_a_def manifest_b_def)
  have b: \<open>serialize_manifest (sort_manifest manifest_b)
     = unlines
         [''{'',
          ''  "name": "app",'',
          ''  "scripts": {'',
          ''    "serve": "vue-cli-service serve",'',
          ''    "lint": "vue-cli-service lint",'',
          ''    "clean": "rm -rf dist",'',
          ''    "zip": "zip -r dist"'',
          ''  },'',
          ''  "dependencies": {'',
          ''    "core-js": "^3.0.0",'',
          ''    "vue": "^2.6.0"'',
          ''  },'',
          ''  "homepage": "x.org",'',
          ''  "license": "MIT"'',
          ''}'']\<close>
    by (simp add: serialize_manifest_def sort_manifest_def manifest_b_def
      js_get_def sort_keys_def listed_entries_def
      unlisted_entries_def pkg_order_def script_order_def block_def quote_def escape_char_def
      indent_def dquote_def backslash_def newline_def unlines_def)
  from c n b o sort_manifest_deterministic [OF c] show ?thesis by simp
qed

section \<open>Results on file resolution\<close>








lemma run_middleware_fields:
  "files (run_middleware (i, m) g) = m (files g)"
  "resolve_calls (run_middleware (i, m) g) = resolve_calls g @ [MiddlewareCalled i]"
  "importsLedger (run_middleware (i, m) g) = importsLedger g"
  "rootOptionsLedger (run_middleware (i, m) g) = rootOptionsLedger g"
  "postProcessFilesCbs (run_middleware (i, m) g) = postProcessFilesCbs g"
  "pkg (run_middleware (i, m) g) = pkg g"
  by (simp_all add: run_middleware_def)

lemma fold_run_middleware:
  "files (fold run_middleware (enumerate n ms) g) = fold (\<lambda>m t. m t) ms (files g)
   \<and> resolve_calls (fold run_middleware (enumerate n ms) g)
     = resolve_calls g @ map (\<lambda>im. MiddlewareCalled (fst im)) (enumerate n ms)
   \<and> importsLedger (fold run_middleware (enumerate n ms) g) = importsLedger g
   \<and> rootOptionsLedger (fold run_middleware (enumerate n ms) g) = rootOptionsLedger g
   \<and> postProcessFilesCbs (fold run_middleware (enumerate n ms) g) = postProcessFilesCbs g
   \<and> pkg (fold run_middleware (enumerate n ms) g) = pkg g"
proof (induction ms arbitrary: n g)
  case Nil
  show ?case by simp
next
  case (Cons m ms)
  show ?case
    using Cons.IH [of "Suc n" "run_middleware (n, m) g"]
    by (simp add: run_middleware_fields)
qed

lemma run_post_process_fields:
  "files (run_post_process (i, m) g) = m (files g)"
  "resolve_calls (run_post_process (i, m) g) = resolve_calls g @ [PostProcessCalled i]"
  "pkg (run_post_process (i, m) g) = pkg g"
  by (simp_all add: run_post_process_def)

lemma fold_run_post_process:
  "files (fold run_post_process (enumerate n ps) g) = fold (\<lambda>m t. m t) ps (files g)
   \<and> resolve_calls (fold run_post_process (enumerate n ps) g)
     = resolve_calls g @ map (\<lambda>ip. PostProcessCalled (fst ip)) (enumerate n ps)
   \<and> pkg (fold run_post_process (enumerate n ps) g) = pkg g"
proof (induction ps arbitrary: n g)
  case Nil
  show ?case by simp
next
  case (Cons m ms)
  show ?case
    using Cons.IH [of "Suc n" "run_post_process (n, m) g"]
    by (simp add: run_post_process_fields)
qed

lemma inject_file_fields:
  "importsLedger (inject_file eng file g) = importsLedger g"
  "rootOptionsLedger (inject_file eng file g) = rootOptionsLedger g"
  "postProcessFilesCbs (inject_file eng file g) = postProcessFilesCbs g"
  "pkg (inject_file eng file g) = pkg g"
  by (simp_all add: inject_file_def inject_concern_def Let_def)








lemma fold_inject_file_pkg: "pkg (fold (inject_file eng) ks g) = pkg g"
  by (induction ks arbitrary: g) (simp_all add: inject_file_fields)

lemma resolveFiles_pkg: "pkg (resolveFiles eng g) = pkg g"
  using fold_run_middleware [of 0 "fileMiddlewares g" g]
  by (simp add: resolveFiles_def Let_def fold_run_post_process fold_inject_file_pkg)





section \<open>Results on the generation pipeline\<close>

lemma stringify_object_layout:
  "stringify 0 (JObj p)
   = (if stringify_props 2 p = [] then ''{}''
      else ''{'' @ [CHR 0x0A]
           @ join ('','' @ [CHR 0x0A]) (map (\<lambda>l. ''  '' @ l) (stringify_props 2 p))
           @ [CHR 0x0A] @ ''}'')"
proof -
  have i: "(@) ''  '' = (\<lambda>l. CHR '' '' # CHR '' '' # l)"
    by (rule ext) simp
  show ?thesis
    by (simp add: block_def indent_def newline_def numeral_2_eq_2 i)
qed

text \<open>
  C10. \<^verbatim>\<open>generate\<close> raises what the extraction raises, before anything is handed to
  the writer. Otherwise it returns, and in the tree handed to the writer the entry
  \<^verbatim>\<open>package.json\<close> is the serialization of the sorted manifest that the extraction
  left, followed by a line feed: line 158 assigns it to the tree that \<^verbatim>\<open>resolveFiles\<close>
  returned, over whatever the plugins, file middlewares, injections and post-process
  callbacks put there. The serialization of an object that has a property to print opens
  with a brace, puts each property on a line of its own after two spaces, the lines
  separated by commas, and closes with a brace on its own line. The initial tree handed
  to the writer is the tree as it was when \<^verbatim>\<open>generate\<close> was called.
\<close>

theorem generate_sets_package_json:
  "(case extractConfigFiles mk VUE_CLI_TEST extractAll checkExisting g of
      Inl e \<Rightarrow> generate mk VUE_CLI_TEST eng extractAll checkExisting g = Inl e
    | Inr g1 \<Rightarrow>
        (\<exists>g'. generate mk VUE_CLI_TEST eng extractAll checkExisting g
               = Inr (g', files g', files g)
           \<and> pkg g' = sort_manifest (pkg g1)
           \<and> files g' = js_set (files (resolveFiles eng g1)) ''package.json''
                           (stringify 0 (JObj (sort_manifest (pkg g1))) @ [CHR 0x0A])
           \<and> map_of (files g') ''package.json''
               = Some (stringify 0 (JObj (sort_manifest (pkg g1))) @ [CHR 0x0A])))
   \<and> (\<forall>p. stringify 0 (JObj p)
          = (if stringify_props 2 p = [] then ''{}''
             else ''{'' @ [CHR 0x0A]
                  @ join ('','' @ [CHR 0x0A]) (map (\<lambda>l. ''  '' @ l) (stringify_props 2 p))
                  @ [CHR 0x0A] @ ''}''))"
proof (rule conjI)
  show "case extractConfigFiles mk VUE_CLI_TEST extractAll checkExisting g of
      Inl e \<Rightarrow> generate mk VUE_CLI_TEST eng extractAll checkExisting g = Inl e
    | Inr g1 \<Rightarrow>
        (\<exists>g'. generate mk VUE_CLI_TEST eng extractAll checkExisting g
               = Inr (g', files g', files g)
           \<and> pkg g' = sort_manifest (pkg g1)
           \<and> files g' = js_set (files (resolveFiles eng g1)) ''package.json''
                           (stringify 0 (JObj (sort_manifest (pkg g1))) @ [CHR 0x0A])
           \<and> map_of (files g') ''package.json''
               = Some (stringify 0 (JObj (sort_manifest (pkg g1))) @ [CHR 0x0A]))"
    by (simp add: generate_def Let_def sortPkg_def resolveFiles_pkg map_of_js_set
        serialize_manifest_def newline_def split: sum.splits)
next
  show "\<forall>p. stringify 0 (JObj p)
          = (if stringify_props 2 p = [] then ''{}''
             else ''{'' @ [CHR 0x0A]
                  @ join ('','' @ [CHR 0x0A]) (map (\<lambda>l. ''  '' @ l) (stringify_props 2 p))
                  @ [CHR 0x0A] @ ''}'')"
    by (rule allI) (rule stringify_object_layout)
qed

lemma scaffold_generator_eval:
  \<open>scaffold_generator =
     \<lparr>plugins = [router_plugin],
      originalPkg = arg_pkg scaffold_args,
      pkg = arg_pkg scaffold_args @ [(''babel'', babel_value), (''license'', JStr ''MIT'')],
      importsLedger = [(''src/main.js'', [''import router from ./router''])],
      rootOptionsLedger = [(''src/main.js'', [''router''])],
      afterInvokeCbs = [],
      afterAnyInvokeCbs = [],
      configTransforms = [],
      invoking = False,
      files = [(''README.md'', ''# app'')],
      fileMiddlewares = [render_main],
      postProcessFilesCbs = [clobber_manifest],
      exitLogs = [],
      allPlugins = [],
      plugin_calls = [ApplyCalled ''@vue/cli-plugin-router'' (JObj []) (JObj []) False],
      resolve_calls = []\<rparr>\<close>
  by (simp add: scaffold_generator_def scaffold_args_def Generator_def apply_pass_def
      discovery_pass_def Let_def
      init_generator_def router_args_def keys_or_empty_def js_get_def root_options_def
      router_plugin_def no_root_options_def apply_one_def run_calls_def router_apply_def
      add_fields_def ledger_add_def is_plugin_id_def starts_with_def strip_scope_def)

lemma scaffold_extract:
  \<open>extractConfigFiles script_transform None False False scaffold_generator
   = Inr (scaffold_generator
            \<lparr>pkg := extracted_pkg,
             files :=
               [(''README.md'', ''# app''),
                (''babel.config.js'',
                 unlines
                   [''module.exports = {'',
                    ''  "presets": ['',
                    ''    "@vue/cli-plugin-babel/preset"'',
                    ''  ]'',
                    ''}''])]\<rparr>)\<close>
  by (simp add: scaffold_generator_eval scaffold_args_def router_args_def extracted_pkg_def
      extractConfigFiles_def Let_def extract_key_def
      extractable_def move_field_def merged_transforms_def object_assign_def
      defaultConfigTransforms_def reservedConfigTransforms_def js_get_def env_set_def
      babel_value_def script_transform_def target_file_def first_candidate_def ensureEOL_def
      js_delete_def newline_def block_def quote_def escape_char_def indent_def
      dquote_def backslash_def unlines_def)

lemma scaffold_sorted:
  \<open>sort_manifest extracted_pkg =
     [(''name'', JStr ''app''),
      (''version'', JStr ''0.1.0''),
      (''private'', JBool True),
      (''description'', JUndefined),
      (''author'', JUndefined),
      (''scripts'', JObj [(''serve'', JUndefined),
                         (''build'', JStr ''vue-cli-service build''),
                         (''test'', JStr ''jest --config "jest.config.js"''),
                         (''e2e'', JUndefined),
                         (''lint'', JUndefined),
                         (''deploy'', JUndefined)]),
      (''main'', JUndefined),
      (''module'', JUndefined),
      (''browser'', JUndefined),
      (''jsDelivr'', JUndefined),
      (''unpkg'', JUndefined),
      (''files'', JArr [JStr ''dist'', JNum ''12'', JNull]),
      (''dependencies'', JUndefined),
      (''devDependencies'', JObj [(''@vue/cli-service'', JStr ''^4.0.0''),
                                 (''vue-template-compiler'', JStr ''^2.6.0'')]),
      (''peerDependencies'', JUndefined),
      (''vue'', JUndefined),
      (''babel'', JUndefined),
      (''eslintConfig'', JUndefined),
      (''prettier'', JUndefined),
      (''postcss'', JUndefined),
      (''browserslist'', JUndefined),
      (''jest'', JUndefined),
      (''config'', JObj []),
      (''engines'', JObj [(''node'', JStr ''>=8'')]),
      (''license'', JStr ''MIT'')]\<close>
  by (simp add: extracted_pkg_def sort_manifest_def sort_keys_def listed_entries_def
      unlisted_entries_def pkg_order_def script_order_def js_get_def)

lemma scaffold_resolve:
  "resolveFiles sample_engine
     (scaffold_generator
        \<lparr>pkg := extracted_pkg,
         files := [(''README.md'', ''# app''), (''babel.config.js'', babel_config_js)]\<rparr>)
   = scaffold_generator
       \<lparr>pkg := extracted_pkg,
        files :=
          [(''README.md'', ''# app''),
           (''babel.config.js'', babel_config_js),
           (''src/main.js'',
            ''import router from ./router'' @ [CHR 0x0A] @ ''new Vue()// options: router''),
           (''package.json'', ''{}'')],
        resolve_calls :=
          [MiddlewareCalled 0, NormalizeCalled,
           EngineCalled ImportsConcern ''src/main.js'' [''import router from ./router''],
           EngineCalled OptionsConcern ''src/main.js'' [''router''],
           PostProcessCalled 0]\<rparr>"
  by (simp add: scaffold_generator_eval resolveFiles_def Let_def render_main_def
      normalizeFilePaths_def normalize_path_def
      slash_def backslash_def inject_file_def inject_concern_def ledger_entries_def
      update_entry_def sample_engine_def run_middleware_def run_post_process_def
      clobber_manifest_def js_delete_def newline_def)

lemma scaffold_serialized:
  "serialize_manifest (sort_manifest extracted_pkg) = scaffold_package_json"
  by (simp add: scaffold_sorted)
     (simp add: serialize_manifest_def scaffold_package_json_def block_def quote_def
      escape_char_def indent_def dquote_def backslash_def newline_def unlines_def)

theorem generate_sets_package_json_witness:
  "generate script_transform None sample_engine False False scaffold_generator
   = Inr (scaffold_generator
            \<lparr>pkg := sort_manifest extracted_pkg,
             files :=
               [(''README.md'', ''# app''),
                (''babel.config.js'', babel_config_js),
                (''src/main.js'',
                 ''import router from ./router'' @ [CHR 0x0A] @ ''new Vue()// options: router''),
                (''package.json'', scaffold_package_json)],
             resolve_calls :=
               [MiddlewareCalled 0, NormalizeCalled,
                EngineCalled ImportsConcern ''src/main.js'' [''import router from ./router''],
                EngineCalled OptionsConcern ''src/main.js'' [''router''],
                PostProcessCalled 0]\<rparr>,
          [(''README.md'', ''# app''),
           (''babel.config.js'', babel_config_js),
           (''src/main.js'',
            ''import router from ./router'' @ [CHR 0x0A] @ ''new Vue()// options: router''),
           (''package.json'', scaffold_package_json)],
          [(''README.md'', ''# app'')])
   \<and> stringify 0 (JArr [JNum ''NaN'', JUndefined, JBool False, JNum ''1e+21'',
                          JStr (''a'' @ [CHR 0x09] @ ''b'' @ [CHR 0x0A] @ ''c'' @ [CHR 0x5C]
                                @ ''d'' @ [CHR 0x01]),
                          JArr [], JObj [(''a'', JUndefined)]])
     = unlines
         [''['',
          ''  null,'',
          ''  null,'',
          ''  false,'',
          ''  1e+21,'',
          ''  '' @ [CHR 0x22] @ ''a'' @ [CHR 0x5C] @ ''tb'' @ [CHR 0x5C] @ ''nc''
            @ [CHR 0x5C, CHR 0x5C] @ ''d'' @ [CHR 0x5C] @ ''u0001'' @ [CHR 0x22] @ '','',
          ''  [],'',
          ''  {}'']
       @ '']''"
proof -
  have v: "stringify 0 (JArr [JNum ''NaN'', JUndefined, JBool False, JNum ''1e+21'',
                          JStr (''a'' @ [CHR 0x09] @ ''b'' @ [CHR 0x0A] @ ''c'' @ [CHR 0x5C]
                                @ ''d'' @ [CHR 0x01]),
                          JArr [], JObj [(''a'', JUndefined)]])
     = unlines
         [''['',
          ''  null,'',
          ''  null,'',
          ''  false,'',
          ''  1e+21,'',
          ''  '' @ [CHR 0x22] @ ''a'' @ [CHR 0x5C] @ ''tb'' @ [CHR 0x5C] @ ''nc''
            @ [CHR 0x5C, CHR 0x5C] @ ''d'' @ [CHR 0x5C] @ ''u0001'' @ [CHR 0x22] @ '','',
          ''  [],'',
          ''  {}'']
       @ '']''"
  proof -
    have h: "hex_digit 0 = CHR ''0''" "hex_digit (Suc 0) = CHR ''1''"
      by code_simp+
    show ?thesis
      by (simp add: block_def quote_def escape_char_def indent_def dquote_def backslash_def
          newline_def unlines_def h)
  qed
  have x: "extractConfigFiles script_transform None False False scaffold_generator
     = Inr (scaffold_generator
              \<lparr>pkg := extracted_pkg,
               files := [(''README.md'', ''# app''), (''babel.config.js'', babel_config_js)]\<rparr>)"
    using scaffold_extract by (simp add: babel_config_js_def)
  have f: "files scaffold_generator = [(''README.md'', ''# app'')]"
    by (simp add: scaffold_generator_eval)
  have e: "generate script_transform None sample_engine False False scaffold_generator
   = Inr (scaffold_generator
            \<lparr>pkg := sort_manifest extracted_pkg,
             files :=
               [(''README.md'', ''# app''),
                (''babel.config.js'', babel_config_js),
                (''src/main.js'',
                 ''import router from ./router'' @ [CHR 0x0A] @ ''new Vue()// options: router''),
                (''package.json'', scaffold_package_json)],
             resolve_calls :=
               [MiddlewareCalled 0, NormalizeCalled,
                EngineCalled ImportsConcern ''src/main.js'' [''import router from ./router''],
                EngineCalled OptionsConcern ''src/main.js'' [''router''],
                PostProcessCalled 0]\<rparr>,
          [(''README.md'', ''# app''),
           (''babel.config.js'', babel_config_js),
           (''src/main.js'',
            ''import router from ./router'' @ [CHR 0x0A] @ ''new Vue()// options: router''),
           (''package.json'', scaffold_package_json)],
          [(''README.md'', ''# app'')])"
    by (simp add: generate_def Let_def x scaffold_resolve sortPkg_def f scaffold_serialized)
  from generate_sets_package_json
    [where mk = script_transform and VUE_CLI_TEST = None and eng = sample_engine
       and extractAll = False and checkExisting = False and g = scaffold_generator]
    e v
  show ?thesis by blast
qed

end
